theory Spec2Isabelle
  imports Complex_Main "HOL-Library.Char_ord" "HOL-Library.List_Lexorder"
begin

section \<open>The sales tracker's data access layer (services/database.ts)\<close>

text \<open>
  The module keeps one SQLite connection in the module-level variable \<open>db\<close> and exports
  asynchronous functions that each issue one or more SQL statements through it. The
  embedding makes the connection and the tables explicit:
  \<^item> a row type per table, as a record with the columns of the \<open>CREATE TABLE\<close>
    statement (columns are prefixed by a letter per table, since HOL record fields
    share one name space);
  \<^item> a table as the list of its rows in insertion order, together with the counter
    that \<open>AUTOINCREMENT\<close> keeps for it;
  \<^item> the variable \<open>db\<close> as a \<open>store option\<close>: \<open>None\<close> before
    \<open>initDatabase\<close> has run, where every exported function throws
    \<open>Database not initialized\<close>;
  \<^item> a thrown \<open>Error\<close> as the left summand of the result.
  Text columns are \<open>string\<close>s, compared bytewise as SQLite's default collation
  does; \<open>INTEGER\<close> columns and JavaScript numbers used as identifiers are \<open>int\<close>;
  the \<open>0 | 1\<close> columns are \<open>bool\<close> (\<open>False\<close> for 0). An amount (the
  \<open>REAL\<close> column, a JavaScript number) is a finite double, represented by the real
  number it denotes. In the product ranking, where rounding decides which revenues tie
  and how the groups are ordered, the addition and the subtraction of doubles are the
  parameters \<open>js_add\<close> and \<open>js_sub\<close>; the total, the average and the conversion
  rate are taken with exact arithmetic, so their rounding is not part of the model.
\<close>

subsection \<open>Rows (types/index.ts and the schema of initDatabase)\<close>

datatype status = New | Contacted | Qualified | Won

datatype feedback = Successful | Busy | NotAnswered | DNC | ConnectedLead

record client =
  c_id :: int
  c_userId :: int
  c_name :: string
  c_phone :: string
  c_email :: string
  c_company :: string
  c_industry :: string

record prospect =
  p_id :: int
  p_userId :: int
  p_name :: string
  p_phone :: string
  p_email :: string
  p_company :: string
  p_status :: status
  p_followUpDate :: string

record sale =
  s_id :: int
  s_clientId :: int
  s_date :: string
  s_amount :: real
  s_productOrService :: string

text \<open>
  The column \<open>entityType\<close> is \<open>TEXT\<close> and holds one of \<open>client\<close>,
  \<open>prospect\<close>, \<open>phoneNumber\<close>; it is kept as the string the statements compare it
  with.
\<close>

record followUp =
  f_id :: int
  f_entityId :: int
  f_entityType :: string
  f_date :: string
  f_notes :: string
  f_isCompleted :: bool
  f_createdAt :: string

record phoneNumber =
  n_id :: int
  n_userId :: int
  n_number :: string
  n_lastCalledDate :: string
  n_isProspect :: bool
  n_prospectId :: "int option"

record callLog =
  l_id :: int
  l_phoneNumberId :: int
  l_date :: string
  l_feedback :: feedback
  l_duration :: int
  l_shortNotes :: string
  l_nextFollowUpDate :: "string option"

subsection \<open>The store\<close>

record store =
  clients :: "client list"
  clients_seq :: int
  prospects :: "prospect list"
  prospects_seq :: int
  sales :: "sale list"
  sales_seq :: int
  followUps :: "followUp list"
  followUps_seq :: int
  phoneNumbers :: "phoneNumber list"
  phoneNumbers_seq :: int
  callLogs :: "callLog list"
  callLogs_seq :: int

text \<open>
  \<open>INTEGER PRIMARY KEY AUTOINCREMENT\<close>: the new row id is one more than the largest id
  the table has ever held, which SQLite remembers in \<open>sqlite_sequence\<close>.
\<close>

definition next_id :: "int \<Rightarrow> int list \<Rightarrow> int" where
  "next_id seq ids = fold max ids seq + 1"

text \<open>
  The statements of one exported function, for the functions whose failure behaviour is
  examined: the promise of \<open>db.getFirstAsync\<close> or \<open>db.runAsync\<close> can be rejected
  by the storage engine, and the surrounding \<open>try\<close>/\<open>catch\<close> logs and rethrows.
\<close>

datatype statement = SelectProspect | InsertClient | InsertSale | UpdateProspectStatus

datatype error =
    DatabaseNotInitialized
  | ProspectNotFound
  | PhoneNumberNotFound
  | StatementRejected statement
  | InvalidTimeValue

text \<open>JavaScript truthiness of an optional string: \<open>undefined\<close>, \<open>null\<close> and the
  empty string are falsy.\<close>

definition truthy :: "string option \<Rightarrow> bool" where
  "truthy v = (case v of None \<Rightarrow> False | Some str \<Rightarrow> str \<noteq> [])"

text \<open>
  \<open>ORDER BY col ASC\<close> and \<open>DESC\<close>. Rows with equal keys come out in the order in
  which the query produces them, which is insertion order for these tables, in both
  directions: SQLite's sorter is stable. \<open>sort_key\<close> is a stable sort, so the
  descending order sorts the reversed rows and reverses the result.
\<close>

definition order_by_asc :: "('r \<Rightarrow> string) \<Rightarrow> 'r list \<Rightarrow> 'r list" where
  "order_by_asc col rows = sort_key col rows"

definition order_by_desc :: "('r \<Rightarrow> string) \<Rightarrow> 'r list \<Rightarrow> 'r list" where
  "order_by_desc col rows = rev (sort_key col (rev rows))"

subsection \<open>Clients and prospects\<close>

definition getClients :: "store option \<Rightarrow> int \<Rightarrow> error + client list" where
  "getClients db userId =
     (case db of
        None \<Rightarrow> Inl DatabaseNotInitialized
      | Some st \<Rightarrow> Inr (order_by_asc c_name [c \<leftarrow> clients st. c_userId c = userId]))"

definition getClientById :: "store option \<Rightarrow> int \<Rightarrow> error + client option" where
  "getClientById db clientId =
     (case db of
        None \<Rightarrow> Inl DatabaseNotInitialized
      | Some st \<Rightarrow> Inr (find (\<lambda>c. c_id c = clientId) (clients st)))"

definition getProspects :: "store option \<Rightarrow> int \<Rightarrow> error + prospect list" where
  "getProspects db userId =
     (case db of
        None \<Rightarrow> Inl DatabaseNotInitialized
      | Some st \<Rightarrow> Inr (order_by_asc p_followUpDate [p \<leftarrow> prospects st. p_userId p = userId]))"

text \<open>
  \<open>updateClient\<close> collects one \<open>SET\<close> clause per supplied field, returns early when
  there is none, and otherwise runs a single \<open>UPDATE ... WHERE id = ?\<close>.
\<close>

record clientUpdates =
  u_name :: "string option"
  u_phone :: "string option"
  u_email :: "string option"
  u_company :: "string option"
  u_industry :: "string option"

definition updateFields :: "clientUpdates \<Rightarrow> (client \<Rightarrow> client) list" where
  "updateFields updates =
     (case u_name updates of None \<Rightarrow> [] | Some v \<Rightarrow> [\<lambda>c. c\<lparr>c_name := v\<rparr>]) @
     (case u_phone updates of None \<Rightarrow> [] | Some v \<Rightarrow> [\<lambda>c. c\<lparr>c_phone := v\<rparr>]) @
     (case u_email updates of None \<Rightarrow> [] | Some v \<Rightarrow> [\<lambda>c. c\<lparr>c_email := v\<rparr>]) @
     (case u_company updates of None \<Rightarrow> [] | Some v \<Rightarrow> [\<lambda>c. c\<lparr>c_company := v\<rparr>]) @
     (case u_industry updates of None \<Rightarrow> [] | Some v \<Rightarrow> [\<lambda>c. c\<lparr>c_industry := v\<rparr>])"

definition updateClient ::
  "store option \<Rightarrow> int \<Rightarrow> clientUpdates \<Rightarrow> (error + unit) \<times> store option" where
  "updateClient db clientId updates =
     (case db of
        None \<Rightarrow> (Inl DatabaseNotInitialized, db)
      | Some st \<Rightarrow>
          if length (updateFields updates) = 0 then (Inr (), db)
          else (Inr (),
            Some (st\<lparr>clients :=
              map (\<lambda>c. if c_id c = clientId then fold (\<lambda>set_field row. set_field row) (updateFields updates) c else c)
                (clients st)\<rparr>)))"

text \<open>The object \<open>{}\<close>: no field supplied.\<close>

definition no_updates :: clientUpdates where
  "no_updates = \<lparr>u_name = None, u_phone = None, u_email = None, u_company = None, u_industry = None\<rparr>"

subsection \<open>Follow-ups\<close>

definition completeFollowUp :: "store option \<Rightarrow> int \<Rightarrow> (error + unit) \<times> store option" where
  "completeFollowUp db followUpId =
     (case db of
        None \<Rightarrow> (Inl DatabaseNotInitialized, db)
      | Some st \<Rightarrow>
          (Inr (),
           Some (st\<lparr>followUps :=
             map (\<lambda>f. if f_id f = followUpId then f\<lparr>f_isCompleted := True\<rparr> else f) (followUps st)\<rparr>)))"

subsection \<open>Prospect to client, with a sale\<close>

text \<open>
  \<open>convertProspectToClientAndRecordSale\<close> awaits four statements in a row, each on
  its own: no statement of the module opens a transaction. The parameter \<open>rejects\<close>
  says which of them the storage engine refuses; a refused statement changes nothing
  itself, its rejection is rethrown by the \<open>catch\<close> block, and the statements after
  it are not issued.
\<close>

record saleData =
  sd_date :: string
  sd_amount :: real
  sd_productOrService :: string

definition convertProspectToClientAndRecordSale ::
  "(statement \<Rightarrow> bool) \<Rightarrow> store option \<Rightarrow> int \<Rightarrow> saleData \<Rightarrow>
     (error + client \<times> sale) \<times> store option" where
  "convertProspectToClientAndRecordSale rejects db prospectId saleData =
     (case db of
        None \<Rightarrow> (Inl DatabaseNotInitialized, db)
      | Some st \<Rightarrow>
          if rejects SelectProspect then (Inl (StatementRejected SelectProspect), db)
          else
            (case find (\<lambda>p. p_id p = prospectId) (prospects st) of
               None \<Rightarrow> (Inl ProspectNotFound, db)
             | Some prospect \<Rightarrow>
                 if rejects InsertClient then (Inl (StatementRejected InsertClient), db)
                 else
                   let newClient =
                         \<lparr>c_id = next_id (clients_seq st) (map c_id (clients st)),
                          c_userId = p_userId prospect,
                          c_name = p_name prospect,
                          c_phone = p_phone prospect,
                          c_email = p_email prospect,
                          c_company = p_company prospect,
                          c_industry = ''General''\<rparr>;
                       st1 = st\<lparr>clients := clients st @ [newClient],
                                clients_seq := c_id newClient\<rparr>
                   in
                     if rejects InsertSale then (Inl (StatementRejected InsertSale), Some st1)
                     else
                       let newSale =
                             \<lparr>s_id = next_id (sales_seq st1) (map s_id (sales st1)),
                              s_clientId = c_id newClient,
                              s_date = sd_date saleData,
                              s_amount = sd_amount saleData,
                              s_productOrService = sd_productOrService saleData\<rparr>;
                           st2 = st1\<lparr>sales := sales st1 @ [newSale], sales_seq := s_id newSale\<rparr>
                       in
                         if rejects UpdateProspectStatus
                         then (Inl (StatementRejected UpdateProspectStatus), Some st2)
                         else
                           (Inr (newClient, newSale),
                            Some (st2\<lparr>prospects :=
                              map (\<lambda>p. if p_id p = prospectId then p\<lparr>p_status := Won\<rparr> else p)
                                (prospects st2)\<rparr>))))"

text \<open>Two engines: one that rejects no statement, and one that rejects exactly the
  given statement.\<close>

definition rejects_none :: "statement \<Rightarrow> bool" where
  "rejects_none stmt = False"

definition rejects_only :: "statement \<Rightarrow> statement \<Rightarrow> bool" where
  "rejects_only failing stmt = (stmt = failing)"

subsection \<open>Calls\<close>

text \<open>
  \<open>recordNewCall\<close> looks the number up for the user, inserts the \<open>PhoneNumbers\<close> row
  or updates its \<open>lastCalledDate\<close>, inserts the call log and, when
  \<open>nextFollowUpDate\<close> is truthy, a follow-up addressed to the phone number. The
  insert is reached only when the lookup found no row, so \<open>UNIQUE(userId, number)\<close>
  cannot refuse it. \<open>now\<close> is the value of \<open>new Date().toISOString()\<close>.
\<close>

record logData =
  ld_date :: string
  ld_feedback :: feedback
  ld_duration :: int
  ld_shortNotes :: string
  ld_nextFollowUpDate :: "string option"

definition recordNewCall ::
  "string \<Rightarrow> store option \<Rightarrow> int \<Rightarrow> string \<Rightarrow> logData \<Rightarrow>
     (error + phoneNumber \<times> callLog) \<times> store option" where
  "recordNewCall now db userId number logData =
     (case db of
        None \<Rightarrow> (Inl DatabaseNotInitialized, db)
      | Some st \<Rightarrow>
          let (phoneNumber, st1) =
                (case find (\<lambda>n. n_userId n = userId \<and> n_number n = number) (phoneNumbers st) of
                   None \<Rightarrow>
                     let inserted =
                           \<lparr>n_id = next_id (phoneNumbers_seq st) (map n_id (phoneNumbers st)),
                            n_userId = userId,
                            n_number = number,
                            n_lastCalledDate = ld_date logData,
                            n_isProspect = False,
                            n_prospectId = None\<rparr>
                     in (inserted,
                         st\<lparr>phoneNumbers := phoneNumbers st @ [inserted],
                            phoneNumbers_seq := n_id inserted\<rparr>)
                 | Some found \<Rightarrow>
                     (found\<lparr>n_lastCalledDate := ld_date logData\<rparr>,
                      st\<lparr>phoneNumbers :=
                        map (\<lambda>n. if n_id n = n_id found
                                  then n\<lparr>n_lastCalledDate := ld_date logData\<rparr> else n)
                          (phoneNumbers st)\<rparr>));
              newCallLog =
                \<lparr>l_id = next_id (callLogs_seq st1) (map l_id (callLogs st1)),
                 l_phoneNumberId = n_id phoneNumber,
                 l_date = ld_date logData,
                 l_feedback = ld_feedback logData,
                 l_duration = ld_duration logData,
                 l_shortNotes = ld_shortNotes logData,
                 l_nextFollowUpDate = ld_nextFollowUpDate logData\<rparr>;
              st2 = st1\<lparr>callLogs := callLogs st1 @ [newCallLog], callLogs_seq := l_id newCallLog\<rparr>;
              st3 =
                (if truthy (ld_nextFollowUpDate logData)
                 then
                   let followUp =
                         \<lparr>f_id = next_id (followUps_seq st2) (map f_id (followUps st2)),
                          f_entityId = n_id phoneNumber,
                          f_entityType = ''phoneNumber'',
                          f_date = the (ld_nextFollowUpDate logData),
                          f_notes = ''Follow-up call for '' @ number,
                          f_isCompleted = False,
                          f_createdAt = now\<rparr>
                   in st2\<lparr>followUps := followUps st2 @ [followUp], followUps_seq := f_id followUp\<rparr>
                 else st2)
          in (Inr (phoneNumber, newCallLog), Some st3))"

text \<open>
  \<open>convertPhoneNumberToProspect\<close>: the prospect takes the owner and the number of the
  phone number row and the remaining columns from \<open>prospectData\<close>.
\<close>

record prospectData =
  pd_name :: string
  pd_email :: string
  pd_company :: string
  pd_status :: status
  pd_followUpDate :: string

definition convertPhoneNumberToProspect ::
  "store option \<Rightarrow> int \<Rightarrow> prospectData \<Rightarrow> (error + prospect) \<times> store option" where
  "convertPhoneNumberToProspect db phoneNumberId prospectData =
     (case db of
        None \<Rightarrow> (Inl DatabaseNotInitialized, db)
      | Some st \<Rightarrow>
          (case find (\<lambda>n. n_id n = phoneNumberId) (phoneNumbers st) of
             None \<Rightarrow> (Inl PhoneNumberNotFound, db)
           | Some phoneNumber \<Rightarrow>
               let newProspect =
                     \<lparr>p_id = next_id (prospects_seq st) (map p_id (prospects st)),
                      p_userId = n_userId phoneNumber,
                      p_name = pd_name prospectData,
                      p_phone = n_number phoneNumber,
                      p_email = pd_email prospectData,
                      p_company = pd_company prospectData,
                      p_status = pd_status prospectData,
                      p_followUpDate = pd_followUpDate prospectData\<rparr>;
                   st1 = st\<lparr>prospects := prospects st @ [newProspect],
                            prospects_seq := p_id newProspect\<rparr>;
                   st2 = st1\<lparr>phoneNumbers :=
                           map (\<lambda>n. if n_id n = phoneNumberId
                                     then n\<lparr>n_isProspect := True, n_prospectId := Some (p_id newProspect)\<rparr>
                                     else n)
                             (phoneNumbers st1)\<rparr>;
                   st3 = st2\<lparr>followUps :=
                           map (\<lambda>f. if f_entityId f = phoneNumberId \<and> f_entityType f = ''phoneNumber''
                                     then f\<lparr>f_isCompleted := True\<rparr> else f)
                             (followUps st2)\<rparr>
               in (Inr newProspect, Some st3)))"

subsection \<open>Queries over call logs and follow-ups\<close>

text \<open>\<open>getCallLogs\<close> joins each call log with its phone number row and keeps the
  logs whose phone number belongs to the user; the row carries the number as well.\<close>

definition getCallLogs :: "store option \<Rightarrow> int \<Rightarrow> error + (callLog \<times> string) list" where
  "getCallLogs db userId =
     (case db of
        None \<Rightarrow> Inl DatabaseNotInitialized
      | Some st \<Rightarrow>
          Inr (order_by_desc (\<lambda>row. l_date (fst row))
            [(l, n_number n). l \<leftarrow> callLogs st, n \<leftarrow> phoneNumbers st,
               l_phoneNumberId l = n_id n \<and> n_userId n = userId]))"

text \<open>
  \<open>LEFT JOIN\<close>: a row without a partner is kept once, with \<open>NULL\<close> for the partner's
  columns; \<open>T.userId = ?\<close> on such a row is not true.
\<close>

definition left_join :: "'r list \<Rightarrow> 'r option list" where
  "left_join partners = (if partners = [] then [None] else map Some partners)"

definition owned_by :: "('r \<Rightarrow> int) \<Rightarrow> int \<Rightarrow> 'r option \<Rightarrow> bool" where
  "owned_by owner userId partner =
     (case partner of None \<Rightarrow> False | Some row \<Rightarrow> owner row = userId)"

definition getFollowUps :: "store option \<Rightarrow> int \<Rightarrow> error + followUp list" where
  "getFollowUps db userId =
     (case db of
        None \<Rightarrow> Inl DatabaseNotInitialized
      | Some st \<Rightarrow>
          Inr (order_by_asc f_date
            [f. f \<leftarrow> followUps st,
               c \<leftarrow> left_join [c \<leftarrow> clients st. f_entityId f = c_id c \<and> f_entityType f = ''client''],
               p \<leftarrow> left_join [p \<leftarrow> prospects st. f_entityId f = p_id p \<and> f_entityType f = ''prospect''],
               n \<leftarrow> left_join [n \<leftarrow> phoneNumbers st. f_entityId f = n_id n \<and> f_entityType f = ''phoneNumber''],
               owned_by c_userId userId c \<or> owned_by p_userId userId p \<or> owned_by n_userId userId n]))"

subsection \<open>Analytics\<close>

text \<open>
  A JavaScript \<open>Map\<close> keeps its keys in the order of their first insertion, and
  \<open>set\<close> on a key that is present replaces the value in place: an association list.
\<close>

fun js_map_set :: "('k \<times> 'v) list \<Rightarrow> 'k \<Rightarrow> 'v \<Rightarrow> ('k \<times> 'v) list" where
  "js_map_set [] k v = [(k, v)]"
| "js_map_set ((k', v') # m) k v =
     (if k' = k then (k', v) # m else (k', v') # js_map_set m k v)"

definition js_map_get :: "('k \<times> 'v) list \<Rightarrow> 'k \<Rightarrow> 'v option" where
  "js_map_get m k = map_of m k"

text \<open>
  \<open>Array.prototype.sort(compareFn)\<close> is a stable sort: \<open>a\<close> comes after \<open>b\<close> when
  \<open>compareFn(a, b) > 0\<close>, and elements that compare equal keep their order.
\<close>

fun insert_sorted :: "('a \<Rightarrow> 'a \<Rightarrow> real) \<Rightarrow> 'a \<Rightarrow> 'a list \<Rightarrow> 'a list" where
  "insert_sorted compareFn a [] = [a]"
| "insert_sorted compareFn a (b # bs) =
     (if compareFn a b > 0 then b # insert_sorted compareFn a bs else a # b # bs)"

definition array_sort :: "('a \<Rightarrow> 'a \<Rightarrow> real) \<Rightarrow> 'a list \<Rightarrow> 'a list" where
  "array_sort compareFn xs = foldr (insert_sorted compareFn) xs []"

record productStat =
  tp_product :: string
  tp_count :: nat
  tp_revenue :: real

record monthStat =
  sm_month :: string
  sm_revenue :: real
  sm_count :: nat

record analyticsData =
  a_totalRevenue :: real
  a_totalClients :: nat
  a_totalProspects :: nat
  a_totalCalls :: nat
  a_totalFollowUps :: nat
  a_completedFollowUps :: nat
  a_pendingFollowUps :: nat
  a_conversionRate :: real
  a_averageSaleAmount :: real
  a_topProducts :: "productStat list"
  a_salesByMonth :: "monthStat list"
  a_prospectsByStatus :: "(status \<times> nat) list"
  a_callsByFeedback :: "(feedback \<times> nat) list"

text \<open>
  The sales query of \<open>getAnalyticsData\<close>: the sales joined with their clients, for the
  clients of the user, bounded by \<open>BETWEEN\<close> only when \<open>startDate && endDate\<close> is
  truthy. Of the joined row the function reads \<open>date\<close>, \<open>amount\<close> and
  \<open>productOrService\<close>, which are columns of \<open>Sales\<close> alone.
\<close>

definition analyticsSales :: "store \<Rightarrow> int \<Rightarrow> string option \<Rightarrow> string option \<Rightarrow> sale list" where
  "analyticsSales st userId startDate endDate =
     order_by_desc s_date
       [s. s \<leftarrow> sales st, c \<leftarrow> clients st,
          s_clientId s = c_id c \<and> c_userId c = userId \<and>
          (if truthy startDate \<and> truthy endDate
           then the startDate \<le> s_date s \<and> s_date s \<le> the endDate else True)]"

definition totalRevenue :: "sale list \<Rightarrow> real" where
  "totalRevenue rows = foldl (\<lambda>sum sale. sum + s_amount sale) 0 rows"

definition averageSaleAmount :: "sale list \<Rightarrow> real" where
  "averageSaleAmount rows =
     (if length rows > 0 then totalRevenue rows / real (length rows) else 0)"

definition conversionRate :: "prospect list \<Rightarrow> real" where
  "conversionRate ps =
     (let wonProspects = length [p \<leftarrow> ps. p_status p = Won];
          totalProspects = length ps
      in if totalProspects > 0 then (real wonProspects / real totalProspects) * 100 else 0)"

text \<open>
  The product ranking. \<open>js_add\<close> is the addition of doubles in
  \<open>existing.revenue + sale.amount\<close>, which rounds; \<open>js_sub\<close> is the subtraction
  in the comparator \<open>b.revenue - a.revenue\<close>, of which the sort reads the sign. The
  counts are small integers, on which the arithmetic of doubles is exact.
\<close>

definition productMap :: "(real \<Rightarrow> real \<Rightarrow> real) \<Rightarrow> sale list \<Rightarrow> (string \<times> nat \<times> real) list" where
  "productMap js_add rows =
     foldl (\<lambda>m sale.
         let existing = (case js_map_get m (s_productOrService sale) of
                           None \<Rightarrow> (0, 0) | Some e \<Rightarrow> e)
         in js_map_set m (s_productOrService sale)
              (fst existing + 1, js_add (snd existing) (s_amount sale)))
       [] rows"

definition topProducts ::
  "(real \<Rightarrow> real \<Rightarrow> real) \<Rightarrow> (real \<Rightarrow> real \<Rightarrow> real) \<Rightarrow> sale list \<Rightarrow> productStat list" where
  "topProducts js_add js_sub rows =
     take 5
       (array_sort (\<lambda>a b. js_sub (tp_revenue b) (tp_revenue a))
          (map (\<lambda>(product, data). \<lparr>tp_product = product, tp_count = fst data, tp_revenue = snd data\<rparr>)
             (productMap js_add rows)))"

text \<open>
  \<open>new Date(sale.date).toISOString().slice(0, 7)\<close> is taken as the parameter
  \<open>monthOf\<close>: \<open>None\<close> where the date does not parse and \<open>toISOString\<close> throws a
  \<open>RangeError\<close>. \<open>String.prototype.localeCompare\<close> is the parameter
  \<open>localeCompare\<close>.
\<close>

fun monthMap ::
  "(string \<Rightarrow> string option) \<Rightarrow> (string \<times> real \<times> nat) list \<Rightarrow> sale list \<Rightarrow>
     error + (string \<times> real \<times> nat) list" where
  "monthMap monthOf m [] = Inr m"
| "monthMap monthOf m (sale # rows) =
     (case monthOf (s_date sale) of
        None \<Rightarrow> Inl InvalidTimeValue
      | Some month \<Rightarrow>
          let existing = (case js_map_get m month of None \<Rightarrow> (0, 0) | Some e \<Rightarrow> e)
          in monthMap monthOf
               (js_map_set m month (fst existing + s_amount sale, snd existing + 1)) rows)"

definition salesByMonth ::
  "(string \<Rightarrow> string option) \<Rightarrow> (string \<Rightarrow> string \<Rightarrow> real) \<Rightarrow> sale list \<Rightarrow>
     error + monthStat list" where
  "salesByMonth monthOf localeCompare rows =
     (case monthMap monthOf [] rows of
        Inl e \<Rightarrow> Inl e
      | Inr m \<Rightarrow>
          Inr (array_sort (\<lambda>a b. localeCompare (sm_month a) (sm_month b))
                 (map (\<lambda>(month, data). \<lparr>sm_month = month, sm_revenue = fst data, sm_count = snd data\<rparr>) m)))"

definition count_by :: "'k list \<Rightarrow> ('k \<times> nat) list" where
  "count_by keys =
     foldl (\<lambda>m k. js_map_set m k ((case js_map_get m k of None \<Rightarrow> 0 | Some n \<Rightarrow> n) + 1)) [] keys"

definition getAnalyticsData ::
  "(real \<Rightarrow> real \<Rightarrow> real) \<Rightarrow> (real \<Rightarrow> real \<Rightarrow> real) \<Rightarrow>
     (string \<Rightarrow> string option) \<Rightarrow> (string \<Rightarrow> string \<Rightarrow> real) \<Rightarrow>
     store option \<Rightarrow> int \<Rightarrow> string option \<Rightarrow> string option \<Rightarrow> error + analyticsData" where
  "getAnalyticsData js_add js_sub monthOf localeCompare db userId startDate endDate =
     (case db of
        None \<Rightarrow> Inl DatabaseNotInitialized
      | Some st \<Rightarrow>
          let rows = analyticsSales st userId startDate endDate in
          (case getClients db userId of Inl e \<Rightarrow> Inl e | Inr cs \<Rightarrow>
          (case getProspects db userId of Inl e \<Rightarrow> Inl e | Inr ps \<Rightarrow>
          (case getCallLogs db userId of Inl e \<Rightarrow> Inl e | Inr logs \<Rightarrow>
          (case getFollowUps db userId of Inl e \<Rightarrow> Inl e | Inr fs \<Rightarrow>
          (case salesByMonth monthOf localeCompare rows of Inl e \<Rightarrow> Inl e | Inr byMonth \<Rightarrow>
             Inr \<lparr>a_totalRevenue = totalRevenue rows,
                  a_totalClients = length cs,
                  a_totalProspects = length ps,
                  a_totalCalls = length logs,
                  a_totalFollowUps = length fs,
                  a_completedFollowUps = length [f \<leftarrow> fs. f_isCompleted f],
                  a_pendingFollowUps = length [f \<leftarrow> fs. \<not> f_isCompleted f],
                  a_conversionRate = conversionRate ps,
                  a_averageSaleAmount = averageSaleAmount rows,
                  a_topProducts = topProducts js_add js_sub rows,
                  a_salesByMonth = byMonth,
                  a_prospectsByStatus = count_by (map p_status ps),
                  a_callsByFeedback = count_by (map (\<lambda>row. l_feedback (fst row)) logs)\<rparr>))))))"

subsection \<open>Schema constraints and the stated form of the product ranking\<close>

text \<open>\<open>UNIQUE(userId, number)\<close> on \<open>PhoneNumbers\<close>, which the storage engine
  maintains.\<close>

definition unique_numbers :: "store \<Rightarrow> bool" where
  "unique_numbers st = distinct (map (\<lambda>n. (n_userId n, n_number n)) (phoneNumbers st))"

text \<open>
  The product ranking as the specification words it: the products in the order in which
  the sales list first mentions them, each with the number of its sales and the sum of
  their amounts, added up with the addition of doubles in the order of the list; these
  groups sorted by descending revenue with a stable sort; the first five of them.
\<close>

fun first_seen :: "'a list \<Rightarrow> 'a list" where
  "first_seen [] = []"
| "first_seen (x # xs) = x # removeAll x (first_seen xs)"

definition product_groups :: "(real \<Rightarrow> real \<Rightarrow> real) \<Rightarrow> sale list \<Rightarrow> productStat list" where
  "product_groups js_add rows =
     map (\<lambda>product.
           \<lparr>tp_product = product,
            tp_count = length [s \<leftarrow> rows. s_productOrService s = product],
            tp_revenue = foldl js_add 0 (map s_amount [s \<leftarrow> rows. s_productOrService s = product])\<rparr>)
       (first_seen (map s_productOrService rows))"

definition topProducts_spec :: "(real \<Rightarrow> real \<Rightarrow> real) \<Rightarrow> sale list \<Rightarrow> productStat list" where
  "topProducts_spec js_add rows =
     take 5 (sort_key (\<lambda>g. - tp_revenue g) (product_groups js_add rows))"

subsection \<open>A sample store\<close>

text \<open>Two users, 1 and 2, each with a client and a prospect; user 1 has one sale, one
  phone number with a call log, and an open follow-up addressed to that number.\<close>

definition example_store :: store where
  "example_store =
     \<lparr>clients =
        [\<lparr>c_id = 1, c_userId = 1, c_name = ''Acme'', c_phone = ''0700000001'',
          c_email = ''a@acme.test'', c_company = ''Acme Ltd'', c_industry = ''Retail''\<rparr>,
         \<lparr>c_id = 2, c_userId = 2, c_name = ''Bolt'', c_phone = ''0700000002'',
          c_email = ''b@bolt.test'', c_company = ''Bolt Ltd'', c_industry = ''General''\<rparr>],
      clients_seq = 2,
      prospects =
        [\<lparr>p_id = 1, p_userId = 1, p_name = ''Cara'', p_phone = ''0700000003'',
          p_email = ''c@cara.test'', p_company = ''Cara Co'', p_status = New,
          p_followUpDate = ''2024-02-01''\<rparr>,
         \<lparr>p_id = 2, p_userId = 2, p_name = ''Dan'', p_phone = ''0700000004'',
          p_email = ''d@dan.test'', p_company = ''Dan Co'', p_status = Won,
          p_followUpDate = ''2024-02-02''\<rparr>],
      prospects_seq = 2,
      sales =
        [\<lparr>s_id = 1, s_clientId = 1, s_date = ''2024-01-15'', s_amount = 100,
          s_productOrService = ''Widget''\<rparr>],
      sales_seq = 1,
      followUps =
        [\<lparr>f_id = 1, f_entityId = 1, f_entityType = ''phoneNumber'', f_date = ''2024-03-01'',
          f_notes = ''Follow-up call for 0700111222'', f_isCompleted = False,
          f_createdAt = ''2024-01-10T09:00:00.000Z''\<rparr>],
      followUps_seq = 1,
      phoneNumbers =
        [\<lparr>n_id = 1, n_userId = 1, n_number = ''0700111222'',
          n_lastCalledDate = ''2024-01-10'', n_isProspect = False, n_prospectId = None\<rparr>],
      phoneNumbers_seq = 1,
      callLogs =
        [\<lparr>l_id = 1, l_phoneNumberId = 1, l_date = ''2024-01-10'', l_feedback = ConnectedLead,
          l_duration = 60, l_shortNotes = ''interested'', l_nextFollowUpDate = Some ''2024-03-01''\<rparr>],
      callLogs_seq = 1\<rparr>"

definition example_sale :: saleData where
  "example_sale = \<lparr>sd_date = ''2024-02-10'', sd_amount = 250, sd_productOrService = ''Widget''\<rparr>"

text \<open>Inputs for the sample store: two call outcomes, the data of a prospect, and
  stand-ins for the JavaScript library functions (the month of an ISO date, a three-way
  comparison, an addition that rounds down to whole numbers, the subtraction). In the
  sample sales, all of client 1, product B reaches 30.25 exactly and 30 under the
  rounding addition, where it ties with product A, which the list mentions first.\<close>

definition example_log :: logData where
  "example_log = \<lparr>ld_date = ''2024-01-20'', ld_feedback = Busy, ld_duration = 0,
     ld_shortNotes = ''call back'', ld_nextFollowUpDate = None\<rparr>"

definition example_log2 :: logData where
  "example_log2 = \<lparr>ld_date = ''2024-01-21'', ld_feedback = ConnectedLead, ld_duration = 95,
     ld_shortNotes = ''wants a quote'', ld_nextFollowUpDate = Some ''2024-01-28''\<rparr>"

definition example_prospectData :: prospectData where
  "example_prospectData = \<lparr>pd_name = ''Eve'', pd_email = ''e@eve.test'', pd_company = ''Eve Co'',
     pd_status = New, pd_followUpDate = ''2024-03-05''\<rparr>"

definition example_sales :: "sale list" where
  "example_sales =
     [\<lparr>s_id = 1, s_clientId = 1, s_date = ''2024-01-05'', s_amount = 30, s_productOrService = ''A''\<rparr>,
      \<lparr>s_id = 2, s_clientId = 1, s_date = ''2024-01-04'', s_amount = 10, s_productOrService = ''B''\<rparr>,
      \<lparr>s_id = 3, s_clientId = 1, s_date = ''2024-01-03'', s_amount = 81 / 4, s_productOrService = ''B''\<rparr>,
      \<lparr>s_id = 4, s_clientId = 1, s_date = ''2024-01-02'', s_amount = 50, s_productOrService = ''C''\<rparr>]"

definition example_ranking_store :: store where
  "example_ranking_store = example_store\<lparr>sales := example_sales, sales_seq := 4\<rparr>"

definition example_add :: "real \<Rightarrow> real \<Rightarrow> real" where
  "example_add a b = of_int \<lfloor>a + b\<rfloor>"

definition example_sub :: "real \<Rightarrow> real \<Rightarrow> real" where
  "example_sub a b = a - b"

definition example_monthOf :: "string \<Rightarrow> string option" where
  "example_monthOf date = (if length date < 10 then None else Some (take 7 date))"

definition example_localeCompare :: "string \<Rightarrow> string \<Rightarrow> real" where
  "example_localeCompare a b = (if a < b then - 1 else if a = b then 0 else 1)"

section \<open>Verification\<close>

subsection \<open>Row identifiers\<close>

lemma fold_max_ge_init: "seq \<le> fold max ids (seq::int)"
  by (induction ids arbitrary: seq) (auto intro: order_trans [OF max.cobounded2])

lemma fold_max_ge_elem: "x \<in> set ids \<Longrightarrow> x \<le> fold max ids (seq::int)"
proof (induction ids arbitrary: seq)
  case Nil
  then show ?case by simp
next
  case (Cons a ids)
  show ?case
  proof (cases "x = a")
    case True
    have "a \<le> max a seq" by simp
    also have "\<dots> \<le> fold max ids (max a seq)" by (rule fold_max_ge_init)
    finally show ?thesis using True by simp
  next
    case False
    with Cons.prems have "x \<in> set ids" by simp
    then show ?thesis using Cons.IH by simp
  qed
qed

lemma next_id_fresh: "next_id seq ids \<notin> set ids"
  using fold_max_ge_elem [of "next_id seq ids" ids seq] by (auto simp: next_id_def)

lemma next_id_above_seq: "seq < next_id seq ids"
  using fold_max_ge_init [of seq ids] by (simp add: next_id_def)

subsection \<open>Prospect conversion\<close>

text \<open>
  The runs of the conversion for a prospect \<open>P\<close> that is found, by the first statement
  the storage engine rejects. With no rejection the caller gets the new client \<open>c\<close>
  and sale \<open>s\<close>: \<open>c\<close> copies \<open>P\<close>'s owner and contact fields with industry
  \<open>General\<close> under a fresh id, \<open>s\<close> references \<open>c\<close> and carries the values of
  \<open>saleData\<close>, and every prospect row with the id has status \<open>Won\<close>. A rejected
  read or client insert leaves the store as it was. After a rejected sale insert or
  status update the rows written before it are still in the store.
\<close>

lemma convertProspect_runs:
  assumes "find (\<lambda>p. p_id p = prospectId) (prospects st) = Some P"
  shows "\<exists>c s.
     c_userId c = p_userId P \<and> c_name c = p_name P \<and> c_phone c = p_phone P \<and>
     c_email c = p_email P \<and> c_company c = p_company P \<and> c_industry c = ''General'' \<and>
     c_id c \<notin> set (map c_id (clients st)) \<and>
     s_clientId s = c_id c \<and> s_date s = sd_date saleData \<and> s_amount s = sd_amount saleData \<and>
     s_productOrService s = sd_productOrService saleData \<and>
     s_id s \<notin> set (map s_id (sales st)) \<and>
     convertProspectToClientAndRecordSale rejects (Some st) prospectId saleData =
       (if rejects SelectProspect then (Inl (StatementRejected SelectProspect), Some st)
        else if rejects InsertClient then (Inl (StatementRejected InsertClient), Some st)
        else if rejects InsertSale then
          (Inl (StatementRejected InsertSale),
           Some (st\<lparr>clients := clients st @ [c], clients_seq := c_id c\<rparr>))
        else if rejects UpdateProspectStatus then
          (Inl (StatementRejected UpdateProspectStatus),
           Some (st\<lparr>clients := clients st @ [c], clients_seq := c_id c,
                    sales := sales st @ [s], sales_seq := s_id s\<rparr>))
        else
          (Inr (c, s),
           Some (st\<lparr>clients := clients st @ [c], clients_seq := c_id c,
                    sales := sales st @ [s], sales_seq := s_id s,
                    prospects := map (\<lambda>p. if p_id p = prospectId then p\<lparr>p_status := Won\<rparr> else p)
                                   (prospects st)\<rparr>)))"
proof -
  define c where "c = \<lparr>c_id = next_id (clients_seq st) (map c_id (clients st)),
     c_userId = p_userId P, c_name = p_name P, c_phone = p_phone P, c_email = p_email P,
     c_company = p_company P, c_industry = ''General''\<rparr>"
  define s where "s = \<lparr>s_id = next_id (sales_seq st) (map s_id (sales st)),
     s_clientId = c_id c, s_date = sd_date saleData, s_amount = sd_amount saleData,
     s_productOrService = sd_productOrService saleData\<rparr>"
  have fresh_c: "c_id c \<notin> set (map c_id (clients st))"
    unfolding c_def using next_id_fresh [of "clients_seq st" "map c_id (clients st)"] by simp
  have fresh_s: "s_id s \<notin> set (map s_id (sales st))"
    unfolding s_def using next_id_fresh [of "sales_seq st" "map s_id (sales st)"] by simp
  have run: "convertProspectToClientAndRecordSale rejects (Some st) prospectId saleData =
       (if rejects SelectProspect then (Inl (StatementRejected SelectProspect), Some st)
        else if rejects InsertClient then (Inl (StatementRejected InsertClient), Some st)
        else if rejects InsertSale then
          (Inl (StatementRejected InsertSale),
           Some (st\<lparr>clients := clients st @ [c], clients_seq := c_id c\<rparr>))
        else if rejects UpdateProspectStatus then
          (Inl (StatementRejected UpdateProspectStatus),
           Some (st\<lparr>clients := clients st @ [c], clients_seq := c_id c,
                    sales := sales st @ [s], sales_seq := s_id s\<rparr>))
        else
          (Inr (c, s),
           Some (st\<lparr>clients := clients st @ [c], clients_seq := c_id c,
                    sales := sales st @ [s], sales_seq := s_id s,
                    prospects := map (\<lambda>p. if p_id p = prospectId then p\<lparr>p_status := Won\<rparr> else p)
                                   (prospects st)\<rparr>)))"
    using assms by (simp add: convertProspectToClientAndRecordSale_def Let_def c_def s_def)
  have fields: "c_userId c = p_userId P \<and> c_name c = p_name P \<and> c_phone c = p_phone P \<and>
     c_email c = p_email P \<and> c_company c = p_company P \<and> c_industry c = ''General'' \<and>
     s_clientId s = c_id c \<and> s_date s = sd_date saleData \<and> s_amount s = sd_amount saleData \<and>
     s_productOrService s = sd_productOrService saleData"
    by (simp add: c_def s_def)
  from fields fresh_c fresh_s run show ?thesis by blast
qed

text \<open>
  C1. The claim asks for all or nothing: if a step after the client insert fails, no
  client row persists. The function does not deliver it. For prospect 1 of the sample
  store and an engine that rejects the sale insert, the call fails, yet the client row
  copied from the prospect is in the store, with no sale for it and the prospect's
  status unchanged. The function issues its statements one by one without a
  transaction, so nothing undoes the insert; the repository's other implementations of
  this function open a transaction and roll it back on failure.
\<close>

theorem convertProspect_partial_state:
  "fst (convertProspectToClientAndRecordSale (rejects_only InsertSale) (Some example_store) 1 example_sale)
     = Inl (StatementRejected InsertSale) \<and>
   map_option clients
     (snd (convertProspectToClientAndRecordSale (rejects_only InsertSale) (Some example_store) 1 example_sale))
     = Some (clients example_store @
         [\<lparr>c_id = 3, c_userId = 1, c_name = ''Cara'', c_phone = ''0700000003'',
           c_email = ''c@cara.test'', c_company = ''Cara Co'', c_industry = ''General''\<rparr>]) \<and>
   map_option sales
     (snd (convertProspectToClientAndRecordSale (rejects_only InsertSale) (Some example_store) 1 example_sale))
     = Some (sales example_store) \<and>
   map_option prospects
     (snd (convertProspectToClientAndRecordSale (rejects_only InsertSale) (Some example_store) 1 example_sale))
     = Some (prospects example_store)"
  by (simp add: convertProspectToClientAndRecordSale_def example_store_def rejects_only_def
        next_id_def Let_def)

text \<open>
  C5. For a prospect id that no row of \<open>Prospects\<close> carries, the conversion leaves
  the store exactly as it was and fails: with \<open>Prospect not found\<close> whenever the
  read itself was accepted, and with the engine's rejection of the read otherwise.
\<close>

theorem convertProspect_absent:
  assumes "prospectId \<notin> set (map p_id (prospects st))"
  shows "convertProspectToClientAndRecordSale rejects (Some st) prospectId saleData =
     (Inl (if rejects SelectProspect then StatementRejected SelectProspect else ProspectNotFound),
      Some st)"
proof -
  have "find (\<lambda>p. p_id p = prospectId) (prospects st) = None"
    using assms by (auto simp: find_None_iff)
  then show ?thesis
    by (simp add: convertProspectToClientAndRecordSale_def)
qed

text \<open>C5, witness: id 7 is absent from the sample store.\<close>

theorem convertProspect_absent_witness:
  "7 \<notin> set (map p_id (prospects example_store)) \<and>
   convertProspectToClientAndRecordSale rejects_none (Some example_store) 7 example_sale =
     (Inl ProspectNotFound, Some example_store)"
proof -
  have h: "7 \<notin> set (map p_id (prospects example_store))"
    by (simp add: example_store_def)
  from convertProspect_absent [OF h, of rejects_none example_sale] h
  show ?thesis by (simp add: rejects_none_def)
qed

subsection \<open>Ownership in queries\<close>

lemma set_order_by_asc: "set (order_by_asc col rows) = set rows"
  by (simp add: order_by_asc_def)

lemma set_order_by_desc: "set (order_by_desc col rows) = set rows"
  by (simp add: order_by_desc_def)

text \<open>
  C2 (as amended). The list queries \<open>getClients\<close> and \<open>getProspects\<close> return
  exactly the rows of the table whose \<open>userId\<close> is the requested user, so never a
  row of another user. The lookup \<open>getClientById\<close> takes no user: it selects on the
  id alone and returns a row with that id whenever the table has one, whoever owns it.
\<close>

theorem list_queries_filter_by_owner:
  "(\<exists>cs. getClients (Some st) userId = Inr cs \<and>
         (\<forall>c \<in> set cs. c_userId c = userId) \<and>
         set cs = {c \<in> set (clients st). c_userId c = userId}) \<and>
   (\<exists>ps. getProspects (Some st) userId = Inr ps \<and>
         (\<forall>p \<in> set ps. p_userId p = userId) \<and>
         set ps = {p \<in> set (prospects st). p_userId p = userId}) \<and>
   ((\<exists>c \<in> set (clients st). c_id c = clientId) \<longrightarrow>
      (\<exists>c. getClientById (Some st) clientId = Inr (Some c) \<and>
           c \<in> set (clients st) \<and> c_id c = clientId)) \<and>
   ((\<forall>c \<in> set (clients st). c_id c \<noteq> clientId) \<longrightarrow>
      getClientById (Some st) clientId = Inr None)"
proof -
  have a: "\<exists>cs. getClients (Some st) userId = Inr cs \<and>
         (\<forall>c \<in> set cs. c_userId c = userId) \<and>
         set cs = {c \<in> set (clients st). c_userId c = userId}"
    by (auto simp: getClients_def set_order_by_asc)
  have b: "\<exists>ps. getProspects (Some st) userId = Inr ps \<and>
         (\<forall>p \<in> set ps. p_userId p = userId) \<and>
         set ps = {p \<in> set (prospects st). p_userId p = userId}"
    by (auto simp: getProspects_def set_order_by_asc)
  have c: "(\<exists>c \<in> set (clients st). c_id c = clientId) \<longrightarrow>
      (\<exists>c. getClientById (Some st) clientId = Inr (Some c) \<and>
           c \<in> set (clients st) \<and> c_id c = clientId)"
  proof
    assume "\<exists>c \<in> set (clients st). c_id c = clientId"
    then obtain c where "find (\<lambda>c. c_id c = clientId) (clients st) = Some c"
      by (cases "find (\<lambda>c. c_id c = clientId) (clients st)") (auto simp: find_None_iff)
    moreover from this have "c \<in> set (clients st) \<and> c_id c = clientId"
      by (auto simp: find_Some_iff)
    ultimately show "\<exists>c. getClientById (Some st) clientId = Inr (Some c) \<and>
           c \<in> set (clients st) \<and> c_id c = clientId"
      by (simp add: getClientById_def)
  qed
  have d: "(\<forall>c \<in> set (clients st). c_id c \<noteq> clientId) \<longrightarrow>
      getClientById (Some st) clientId = Inr None"
    by (auto simp: getClientById_def find_None_iff)
  from a b c d show ?thesis by blast
qed

text \<open>C2, witness: the queries for user 1 on the sample store.\<close>

theorem list_queries_filter_by_owner_witness:
  "getClients (Some example_store) 1 = Inr [hd (clients example_store)] \<and>
   getProspects (Some example_store) 1 = Inr [hd (prospects example_store)] \<and>
   getClientById (Some example_store) 1 = Inr (Some (hd (clients example_store)))"
proof -
  have "getClients (Some example_store) 1 = Inr [hd (clients example_store)]"
    by (simp add: getClients_def order_by_asc_def example_store_def)
  moreover have "getProspects (Some example_store) 1 = Inr [hd (prospects example_store)]"
    by (simp add: getProspects_def order_by_asc_def example_store_def)
  moreover have "getClientById (Some example_store) 1 = Inr (Some (hd (clients example_store)))"
    using list_queries_filter_by_owner [of example_store 1 1]
    by (simp add: getClientById_def example_store_def)
  ultimately show ?thesis by simp
qed

text \<open>
  C2, counterexample to the claim as stated (by-id lookups return only the caller's
  rows): in the sample store users 1 and 2 own disjoint clients and prospects, and
  \<open>getClientById\<close> with id 2, which any caller may pass, returns the client of
  user 2.
\<close>

theorem getClientById_crosses_owners:
  "getClientById (Some example_store) 2 =
     Inr (Some \<lparr>c_id = 2, c_userId = 2, c_name = ''Bolt'', c_phone = ''0700000002'',
                 c_email = ''b@bolt.test'', c_company = ''Bolt Ltd'', c_industry = ''General''\<rparr>) \<and>
   map c_userId (clients example_store) = [1, 2] \<and>
   map p_userId (prospects example_store) = [1, 2]"
  by (simp add: getClientById_def example_store_def)

subsection \<open>Follow-up completion and partial updates\<close>

text \<open>
  C8. Completing a follow-up a second time returns the same result and leaves the same
  store as completing it once; after the call every follow-up with the id is
  completed, and the other follow-ups and all ids are as before. (Before
  initialisation both calls throw and nothing changes.)
\<close>

theorem completeFollowUp_idempotent:
  "completeFollowUp (snd (completeFollowUp db followUpId)) followUpId = completeFollowUp db followUpId \<and>
   (\<exists>st'. completeFollowUp (Some st) followUpId = (Inr (), Some st') \<and>
      list_all f_isCompleted [f \<leftarrow> followUps st'. f_id f = followUpId] \<and>
      [f \<leftarrow> followUps st'. f_id f \<noteq> followUpId] = [f \<leftarrow> followUps st. f_id f \<noteq> followUpId] \<and>
      map f_id (followUps st') = map f_id (followUps st))"
proof -
  have twice: "completeFollowUp (snd (completeFollowUp db followUpId)) followUpId =
      completeFollowUp db followUpId"
    by (cases db) (simp_all add: completeFollowUp_def comp_def)
  have a: "list_all f_isCompleted
      [f \<leftarrow> map (\<lambda>f. if f_id f = followUpId then f\<lparr>f_isCompleted := True\<rparr> else f) fs. f_id f = followUpId]" for fs
    by (induction fs) simp_all
  have b: "[f \<leftarrow> map (\<lambda>f. if f_id f = followUpId then f\<lparr>f_isCompleted := True\<rparr> else f) fs. f_id f \<noteq> followUpId]
      = [f \<leftarrow> fs. f_id f \<noteq> followUpId]" for fs
    by (induction fs) simp_all
  have c: "map f_id (map (\<lambda>f. if f_id f = followUpId then f\<lparr>f_isCompleted := True\<rparr> else f) fs) = map f_id fs" for fs
    by (induction fs) simp_all
  have once: "completeFollowUp (Some st) followUpId =
      (Inr (), Some (st\<lparr>followUps :=
         map (\<lambda>f. if f_id f = followUpId then f\<lparr>f_isCompleted := True\<rparr> else f) (followUps st)\<rparr>))"
    by (simp add: completeFollowUp_def)
  have "\<exists>st'. completeFollowUp (Some st) followUpId = (Inr (), Some st') \<and>
      list_all f_isCompleted [f \<leftarrow> followUps st'. f_id f = followUpId] \<and>
      [f \<leftarrow> followUps st'. f_id f \<noteq> followUpId] = [f \<leftarrow> followUps st. f_id f \<noteq> followUpId] \<and>
      map f_id (followUps st') = map f_id (followUps st)"
    unfolding once using a [of "followUps st"] b [of "followUps st"] c [of "followUps st"]
    by simp
  with twice show ?thesis by blast
qed

text \<open>
  C9. \<open>updateClient\<close> with no field supplied returns without error and leaves the
  store as it was, for every client id, present or not. (Before initialisation the call
  throws; the connection stays as it was.)
\<close>

theorem updateClient_no_fields:
  "updateClient (Some st) clientId no_updates = (Inr (), Some st) \<and>
   snd (updateClient db clientId no_updates) = db"
  by (simp add: updateClient_def updateFields_def no_updates_def split: option.splits)

subsection \<open>Recording calls\<close>

lemma filter_unique_none:
  "find P xs = None \<Longrightarrow> filter P xs = []"
  by (induction xs) (auto split: if_splits)

lemma filter_unique_some:
  assumes "distinct (map key xs)" and "\<And>x. P x \<longleftrightarrow> key x = k" and "find P xs = Some x"
  shows "filter P xs = [x]"
  using assms(1,3)
proof (induction xs)
  case Nil
  then show ?case by simp
next
  case (Cons a xs)
  show ?case
  proof (cases "P a")
    case True
    with Cons.prems have xa: "x = a" by simp
    have "filter P xs = []"
    proof (rule ccontr)
      assume "filter P xs \<noteq> []"
      then obtain y where y: "y \<in> set xs" "P y"
        by (metis filter_False)
      with True assms(2) have "key y = key a" by simp
      with y(1) Cons.prems(1) show False by (auto simp: image_iff)
    qed
    with True xa show ?thesis by simp
  next
    case False
    with Cons show ?thesis by simp
  qed
qed

lemma recordNewCall_step:
  assumes "unique_numbers st"
  shows "\<exists>pn call st'.
     recordNewCall now (Some st) userId number logData = (Inr (pn, call), Some st') \<and>
     unique_numbers st' \<and>
     [n \<leftarrow> phoneNumbers st'. n_userId n = userId \<and> n_number n = number] = [pn] \<and>
     n_lastCalledDate pn = ld_date logData \<and>
     (\<forall>old. [n \<leftarrow> phoneNumbers st. n_userId n = userId \<and> n_number n = number] = [old] \<longrightarrow>
        n_id pn = n_id old \<and> length (phoneNumbers st') = length (phoneNumbers st)) \<and>
     callLogs st' = callLogs st @ [call] \<and>
     l_phoneNumberId call = n_id pn \<and> l_date call = ld_date logData \<and>
     l_id call \<notin> set (map l_id (callLogs st))"
proof -
  let ?P = "\<lambda>n. n_userId n = userId \<and> n_number n = number"
  let ?key = "\<lambda>n. (n_userId n, n_number n)"
  have dist: "distinct (map ?key (phoneNumbers st))"
    using assms by (simp add: unique_numbers_def)
  show ?thesis
  proof (cases "find ?P (phoneNumbers st)")
    case None
    define pn where "pn = \<lparr>n_id = next_id (phoneNumbers_seq st) (map n_id (phoneNumbers st)),
        n_userId = userId, n_number = number, n_lastCalledDate = ld_date logData,
        n_isProspect = False, n_prospectId = None\<rparr>"
    define call where "call = \<lparr>l_id = next_id (callLogs_seq st) (map l_id (callLogs st)),
        l_phoneNumberId = n_id pn, l_date = ld_date logData, l_feedback = ld_feedback logData,
        l_duration = ld_duration logData, l_shortNotes = ld_shortNotes logData,
        l_nextFollowUpDate = ld_nextFollowUpDate logData\<rparr>"
    obtain st' where run: "recordNewCall now (Some st) userId number logData = (Inr (pn, call), Some st')"
      and tabs: "phoneNumbers st' = phoneNumbers st @ [pn]" "callLogs st' = callLogs st @ [call]"
      using None by (simp add: recordNewCall_def Let_def pn_def call_def)
    have none: "filter ?P (phoneNumbers st) = []"
      using None by (rule filter_unique_none)
    then have "(userId, number) \<notin> set (map ?key (phoneNumbers st))"
      by (auto simp: filter_empty_conv)
    then have uniq': "unique_numbers st'"
      using dist by (simp add: unique_numbers_def tabs pn_def)
    have one: "filter ?P (phoneNumbers st') = [pn]"
      using none by (simp add: tabs pn_def)
    have fresh: "l_id call \<notin> set (map l_id (callLogs st))"
      unfolding call_def using next_id_fresh [of "callLogs_seq st" "map l_id (callLogs st)"] by simp
    have "n_lastCalledDate pn = ld_date logData \<and> l_phoneNumberId call = n_id pn \<and>
        l_date call = ld_date logData"
      by (simp add: pn_def call_def)
    with run uniq' one fresh tabs none show ?thesis by auto
  next
    case (Some found)
    let ?upd = "\<lambda>n. if n_id n = n_id found then n\<lparr>n_lastCalledDate := ld_date logData\<rparr> else n"
    define pn where "pn = found\<lparr>n_lastCalledDate := ld_date logData\<rparr>"
    define call where "call = \<lparr>l_id = next_id (callLogs_seq st) (map l_id (callLogs st)),
        l_phoneNumberId = n_id pn, l_date = ld_date logData, l_feedback = ld_feedback logData,
        l_duration = ld_duration logData, l_shortNotes = ld_shortNotes logData,
        l_nextFollowUpDate = ld_nextFollowUpDate logData\<rparr>"
    obtain st' where run: "recordNewCall now (Some st) userId number logData = (Inr (pn, call), Some st')"
      and tabs: "phoneNumbers st' = map ?upd (phoneNumbers st)" "callLogs st' = callLogs st @ [call]"
      using Some by (simp add: recordNewCall_def Let_def pn_def call_def)
    have old: "filter ?P (phoneNumbers st) = [found]"
      by (rule filter_unique_some [OF dist _ Some]) auto
    have keys: "map ?key (map ?upd ns) = map ?key ns" for ns
      by (induction ns) simp_all
    have uniq': "unique_numbers st'"
      using dist by (simp only: unique_numbers_def tabs keys)
    have comm: "filter ?P (map ?upd ns) = map ?upd (filter ?P ns)" for ns
      by (induction ns) simp_all
    have one: "filter ?P (phoneNumbers st') = [pn]"
      by (simp only: tabs comm old) (simp add: pn_def)
    have fresh: "l_id call \<notin> set (map l_id (callLogs st))"
      unfolding call_def using next_id_fresh [of "callLogs_seq st" "map l_id (callLogs st)"] by simp
    have "n_lastCalledDate pn = ld_date logData \<and> l_phoneNumberId call = n_id pn \<and>
        l_date call = ld_date logData \<and> n_id pn = n_id found"
      by (simp add: pn_def call_def)
    moreover have "length (phoneNumbers st') = length (phoneNumbers st)"
      by (simp add: tabs)
    ultimately show ?thesis using run uniq' one fresh tabs(2) old by auto
  qed
qed

text \<open>
  C3. In a store that satisfies \<open>UNIQUE(userId, number)\<close>, two successive
  \<open>recordNewCall\<close> invocations for the same user and number both succeed and leave
  exactly one \<open>PhoneNumbers\<close> row for the pair, whose \<open>lastCalledDate\<close> is the date
  of the second call; the second call keeps the row's id and the size of the table (it
  updates, it does not insert), and the two calls append two call logs, with different
  ids, that reference that row.
\<close>

theorem recordNewCall_twice:
  assumes "unique_numbers st"
    and "recordNewCall now1 (Some st) userId number log1 = (r1, db1)"
    and "recordNewCall now2 db1 userId number log2 = (r2, db2)"
  shows "\<exists>st1 st2 pn1 pn2 call1 call2.
      r1 = Inr (pn1, call1) \<and> db1 = Some st1 \<and> r2 = Inr (pn2, call2) \<and> db2 = Some st2 \<and>
      [n \<leftarrow> phoneNumbers st2. n_userId n = userId \<and> n_number n = number] = [pn2] \<and>
      n_lastCalledDate pn2 = ld_date log2 \<and>
      n_id pn2 = n_id pn1 \<and>
      length (phoneNumbers st2) = length (phoneNumbers st1) \<and>
      callLogs st2 = callLogs st @ [call1, call2] \<and>
      l_phoneNumberId call1 = n_id pn2 \<and> l_phoneNumberId call2 = n_id pn2 \<and>
      l_date call1 = ld_date log1 \<and> l_date call2 = ld_date log2 \<and>
      l_id call1 \<noteq> l_id call2"
proof -
  from recordNewCall_step [OF assms(1), of now1 userId number log1] assms(2)
  obtain pn1 call1 st1 where
    s1: "r1 = Inr (pn1, call1)" "db1 = Some st1" "unique_numbers st1"
      "[n \<leftarrow> phoneNumbers st1. n_userId n = userId \<and> n_number n = number] = [pn1]"
      "callLogs st1 = callLogs st @ [call1]" "l_phoneNumberId call1 = n_id pn1"
      "l_date call1 = ld_date log1"
    by auto
  from recordNewCall_step [OF s1(3), of now2 userId number log2] assms(3) s1(2)
  obtain pn2 call2 st2 where
    s2: "r2 = Inr (pn2, call2)" "db2 = Some st2"
      "[n \<leftarrow> phoneNumbers st2. n_userId n = userId \<and> n_number n = number] = [pn2]"
      "n_lastCalledDate pn2 = ld_date log2"
      "\<forall>old. [n \<leftarrow> phoneNumbers st1. n_userId n = userId \<and> n_number n = number] = [old] \<longrightarrow>
        n_id pn2 = n_id old \<and> length (phoneNumbers st2) = length (phoneNumbers st1)"
      "callLogs st2 = callLogs st1 @ [call2]" "l_phoneNumberId call2 = n_id pn2"
      "l_date call2 = ld_date log2" "l_id call2 \<notin> set (map l_id (callLogs st1))"
    by auto
  from s2(5) s1(4) have same: "n_id pn2 = n_id pn1" "length (phoneNumbers st2) = length (phoneNumbers st1)"
    by auto
  from s2(9) s1(5) have "l_id call1 \<noteq> l_id call2" by auto
  with s1 s2 same show ?thesis by auto
qed

text \<open>C3, witness: two calls by user 1 to a number the sample store does not hold yet.\<close>

theorem recordNewCall_twice_witness:
  "unique_numbers example_store \<and>
   map_option (\<lambda>st'. map (\<lambda>n. (n_id n, n_userId n, n_number n, n_lastCalledDate n)) (phoneNumbers st'))
     (snd (recordNewCall ''2024-01-21T10:00:00.000Z''
            (snd (recordNewCall ''2024-01-20T10:00:00.000Z'' (Some example_store) 1 ''0700999888'' example_log))
            1 ''0700999888'' example_log2)) =
     Some [(1, 1, ''0700111222'', ''2024-01-10''), (2, 1, ''0700999888'', ''2024-01-21'')] \<and>
   map_option (\<lambda>st'. map (\<lambda>l. (l_id l, l_phoneNumberId l, l_date l)) (callLogs st'))
     (snd (recordNewCall ''2024-01-21T10:00:00.000Z''
            (snd (recordNewCall ''2024-01-20T10:00:00.000Z'' (Some example_store) 1 ''0700999888'' example_log))
            1 ''0700999888'' example_log2)) =
     Some [(1, 1, ''2024-01-10''), (2, 2, ''2024-01-20''), (3, 2, ''2024-01-21'')]"
proof -
  have u: "unique_numbers example_store"
    by (simp add: unique_numbers_def example_store_def)
  have first: "snd (recordNewCall ''2024-01-20T10:00:00.000Z'' (Some example_store) 1 ''0700999888'' example_log) =
      Some (example_store\<lparr>
        phoneNumbers := phoneNumbers example_store @
          [\<lparr>n_id = 2, n_userId = 1, n_number = ''0700999888'', n_lastCalledDate = ''2024-01-20'',
            n_isProspect = False, n_prospectId = None\<rparr>],
        phoneNumbers_seq := 2,
        callLogs := callLogs example_store @
          [\<lparr>l_id = 2, l_phoneNumberId = 2, l_date = ''2024-01-20'', l_feedback = Busy,
            l_duration = 0, l_shortNotes = ''call back'', l_nextFollowUpDate = None\<rparr>],
        callLogs_seq := 2\<rparr>)"
    by (simp add: recordNewCall_def example_store_def example_log_def next_id_def Let_def truthy_def)
  note both = recordNewCall_twice [OF u surjective_pairing surjective_pairing,
      of "''2024-01-20T10:00:00.000Z''" 1 "''0700999888''" example_log
         "''2024-01-21T10:00:00.000Z''" example_log2]
  show ?thesis
    unfolding first using u both
    by (simp add: recordNewCall_def example_store_def example_log2_def next_id_def Let_def truthy_def)
qed

subsection \<open>Phone number to prospect\<close>

text \<open>
  C4. \<open>convertPhoneNumberToProspect\<close> fails with \<open>Phone number not found\<close>, the
  store unchanged, when no row has the id. Otherwise it returns a prospect appended to
  \<open>Prospects\<close> under a fresh id, whose phone and owner are those of the phone number
  row; every \<open>PhoneNumbers\<close> row with the id has \<open>isProspect\<close> set and
  \<open>prospectId\<close> equal to the new prospect's id; every follow-up addressed to the id
  with entity type \<open>phoneNumber\<close> is completed, and the follow-ups differ from the
  former ones in \<open>isCompleted\<close> at most, the others not at all.
\<close>

theorem convertPhoneNumberToProspect_effect:
  "((\<forall>n \<in> set (phoneNumbers st). n_id n \<noteq> phoneNumberId) \<longrightarrow>
      convertPhoneNumberToProspect (Some st) phoneNumberId prospectData =
        (Inl PhoneNumberNotFound, Some st)) \<and>
   (\<forall>pn. find (\<lambda>n. n_id n = phoneNumberId) (phoneNumbers st) = Some pn \<longrightarrow>
      (\<exists>p st'.
         convertPhoneNumberToProspect (Some st) phoneNumberId prospectData = (Inr p, Some st') \<and>
         prospects st' = prospects st @ [p] \<and>
         p_phone p = n_number pn \<and> p_userId p = n_userId pn \<and>
         p_name p = pd_name prospectData \<and> p_status p = pd_status prospectData \<and>
         p_id p \<notin> set (map p_id (prospects st)) \<and>
         phoneNumbers st' =
           map (\<lambda>n. if n_id n = phoneNumberId
                     then n\<lparr>n_isProspect := True, n_prospectId := Some (p_id p)\<rparr> else n)
             (phoneNumbers st) \<and>
         list_all (\<lambda>n. n_isProspect n \<and> n_prospectId n = Some (p_id p))
           [n \<leftarrow> phoneNumbers st'. n_id n = phoneNumberId] \<and>
         list_all f_isCompleted
           [f \<leftarrow> followUps st'. f_entityId f = phoneNumberId \<and> f_entityType f = ''phoneNumber''] \<and>
         [f \<leftarrow> followUps st'. \<not> (f_entityId f = phoneNumberId \<and> f_entityType f = ''phoneNumber'')] =
         [f \<leftarrow> followUps st. \<not> (f_entityId f = phoneNumberId \<and> f_entityType f = ''phoneNumber'')] \<and>
         map (\<lambda>f. f\<lparr>f_isCompleted := True\<rparr>) (followUps st') =
           map (\<lambda>f. f\<lparr>f_isCompleted := True\<rparr>) (followUps st)))"
proof -
  let ?addr = "\<lambda>f. f_entityId f = phoneNumberId \<and> f_entityType f = ''phoneNumber''"
  let ?done = "\<lambda>f. if ?addr f then f\<lparr>f_isCompleted := True\<rparr> else f"
  have absent: "(\<forall>n \<in> set (phoneNumbers st). n_id n \<noteq> phoneNumberId) \<longrightarrow>
      convertPhoneNumberToProspect (Some st) phoneNumberId prospectData =
        (Inl PhoneNumberNotFound, Some st)"
  proof
    assume "\<forall>n \<in> set (phoneNumbers st). n_id n \<noteq> phoneNumberId"
    then have "find (\<lambda>n. n_id n = phoneNumberId) (phoneNumbers st) = None"
      by (auto simp: find_None_iff)
    then show "convertPhoneNumberToProspect (Some st) phoneNumberId prospectData =
        (Inl PhoneNumberNotFound, Some st)"
      by (simp add: convertPhoneNumberToProspect_def)
  qed
  have f1: "list_all f_isCompleted [f \<leftarrow> map ?done fs. ?addr f]" for fs
    by (induction fs) auto
  have f2: "[f \<leftarrow> map ?done fs. \<not> ?addr f] = [f \<leftarrow> fs. \<not> ?addr f]" for fs
    by (induction fs) auto
  have f3: "map (\<lambda>f. f\<lparr>f_isCompleted := True\<rparr>) (map ?done fs) = map (\<lambda>f. f\<lparr>f_isCompleted := True\<rparr>) fs" for fs
    by (induction fs) simp_all
  have n1: "list_all (\<lambda>n. n_isProspect n \<and> n_prospectId n = Some i)
      [n \<leftarrow> map (\<lambda>n. if n_id n = phoneNumberId
                     then n\<lparr>n_isProspect := True, n_prospectId := Some i\<rparr> else n) ns.
         n_id n = phoneNumberId]" for ns i
    by (induction ns) simp_all
  have present: "\<exists>p st'.
         convertPhoneNumberToProspect (Some st) phoneNumberId prospectData = (Inr p, Some st') \<and>
         prospects st' = prospects st @ [p] \<and>
         p_phone p = n_number pn \<and> p_userId p = n_userId pn \<and>
         p_name p = pd_name prospectData \<and> p_status p = pd_status prospectData \<and>
         p_id p \<notin> set (map p_id (prospects st)) \<and>
         phoneNumbers st' =
           map (\<lambda>n. if n_id n = phoneNumberId
                     then n\<lparr>n_isProspect := True, n_prospectId := Some (p_id p)\<rparr> else n)
             (phoneNumbers st) \<and>
         list_all (\<lambda>n. n_isProspect n \<and> n_prospectId n = Some (p_id p))
           [n \<leftarrow> phoneNumbers st'. n_id n = phoneNumberId] \<and>
         list_all f_isCompleted [f \<leftarrow> followUps st'. ?addr f] \<and>
         [f \<leftarrow> followUps st'. \<not> ?addr f] = [f \<leftarrow> followUps st. \<not> ?addr f] \<and>
         map (\<lambda>f. f\<lparr>f_isCompleted := True\<rparr>) (followUps st') =
           map (\<lambda>f. f\<lparr>f_isCompleted := True\<rparr>) (followUps st)"
    if found: "find (\<lambda>n. n_id n = phoneNumberId) (phoneNumbers st) = Some pn" for pn
  proof -
    define p where "p = \<lparr>p_id = next_id (prospects_seq st) (map p_id (prospects st)),
        p_userId = n_userId pn, p_name = pd_name prospectData, p_phone = n_number pn,
        p_email = pd_email prospectData, p_company = pd_company prospectData,
        p_status = pd_status prospectData, p_followUpDate = pd_followUpDate prospectData\<rparr>"
    define st' where "st' = st\<lparr>prospects := prospects st @ [p], prospects_seq := p_id p,
        phoneNumbers := map (\<lambda>n. if n_id n = phoneNumberId
                     then n\<lparr>n_isProspect := True, n_prospectId := Some (p_id p)\<rparr> else n)
             (phoneNumbers st),
        followUps := map ?done (followUps st)\<rparr>"
    have run: "convertPhoneNumberToProspect (Some st) phoneNumberId prospectData = (Inr p, Some st')"
      using found by (simp add: convertPhoneNumberToProspect_def Let_def p_def st'_def)
    have fresh: "p_id p \<notin> set (map p_id (prospects st))"
      unfolding p_def using next_id_fresh [of "prospects_seq st" "map p_id (prospects st)"] by simp
    have vals: "p_phone p = n_number pn \<and> p_userId p = n_userId pn \<and>
         p_name p = pd_name prospectData \<and> p_status p = pd_status prospectData"
      by (simp add: p_def)
    have tabs: "prospects st' = prospects st @ [p]"
      "phoneNumbers st' = map (\<lambda>n. if n_id n = phoneNumberId
                     then n\<lparr>n_isProspect := True, n_prospectId := Some (p_id p)\<rparr> else n)
             (phoneNumbers st)"
      "followUps st' = map ?done (followUps st)"
      by (simp_all add: st'_def)
    show ?thesis
      apply (rule exI [of _ p], rule exI [of _ st'])
      apply (simp only: tabs)
      using run fresh vals f1 [of "followUps st"] f2 [of "followUps st"] f3 [of "followUps st"]
        n1 [of "p_id p" "phoneNumbers st"]
      apply blast
      done
  qed
  from absent present show ?thesis by blast
qed

text \<open>C4, witness: phone number 1 of the sample store, whose follow-up is open, and the
  absent id 9.\<close>

theorem convertPhoneNumberToProspect_effect_witness:
  "find (\<lambda>n. n_id n = 1) (phoneNumbers example_store) = Some (hd (phoneNumbers example_store)) \<and>
   fst (convertPhoneNumberToProspect (Some example_store) 1 example_prospectData) =
     Inr \<lparr>p_id = 3, p_userId = 1, p_name = ''Eve'', p_phone = ''0700111222'',
          p_email = ''e@eve.test'', p_company = ''Eve Co'', p_status = New,
          p_followUpDate = ''2024-03-05''\<rparr> \<and>
   map_option (\<lambda>st'. map (\<lambda>n. (n_id n, n_isProspect n, n_prospectId n)) (phoneNumbers st'))
     (snd (convertPhoneNumberToProspect (Some example_store) 1 example_prospectData)) =
     Some [(1, True, Some 3)] \<and>
   map_option (\<lambda>st'. map (\<lambda>f. (f_id f, f_isCompleted f)) (followUps st'))
     (snd (convertPhoneNumberToProspect (Some example_store) 1 example_prospectData)) =
     Some [(1, True)] \<and>
   convertPhoneNumberToProspect (Some example_store) 9 example_prospectData =
     (Inl PhoneNumberNotFound, Some example_store)"
proof -
  have h: "find (\<lambda>n. n_id n = 1) (phoneNumbers example_store) = Some (hd (phoneNumbers example_store))"
    by (simp add: example_store_def)
  have a: "\<forall>n \<in> set (phoneNumbers example_store). n_id n \<noteq> 9"
    by (simp add: example_store_def)
  from convertPhoneNumberToProspect_effect [of example_store 9 example_prospectData] a
  have absent: "convertPhoneNumberToProspect (Some example_store) 9 example_prospectData =
     (Inl PhoneNumberNotFound, Some example_store)"
    by blast
  have run: "convertPhoneNumberToProspect (Some example_store) 1 example_prospectData =
     (Inr \<lparr>p_id = 3, p_userId = 1, p_name = ''Eve'', p_phone = ''0700111222'',
          p_email = ''e@eve.test'', p_company = ''Eve Co'', p_status = New,
          p_followUpDate = ''2024-03-05''\<rparr>,
      Some (example_store\<lparr>
        prospects := prospects example_store @
          [\<lparr>p_id = 3, p_userId = 1, p_name = ''Eve'', p_phone = ''0700111222'',
          p_email = ''e@eve.test'', p_company = ''Eve Co'', p_status = New,
          p_followUpDate = ''2024-03-05''\<rparr>],
        prospects_seq := 3,
        phoneNumbers := [(hd (phoneNumbers example_store))\<lparr>n_isProspect := True, n_prospectId := Some 3\<rparr>],
        followUps := [(hd (followUps example_store))\<lparr>f_isCompleted := True\<rparr>]\<rparr>))"
    by (simp add: convertPhoneNumberToProspect_def example_store_def example_prospectData_def
          next_id_def Let_def)
  show ?thesis
    unfolding run using h absent by (simp add: example_store_def)
qed

subsection \<open>Analytics: averages and rates\<close>

lemma totalRevenue_sum: "totalRevenue rows = sum_list (map s_amount rows)"
proof -
  have "foldl (\<lambda>sum sale. sum + s_amount sale) acc rows = acc + sum_list (map s_amount rows)" for acc
    by (induction rows arbitrary: acc) simp_all
  then show ?thesis by (simp add: totalRevenue_def)
qed

lemma monthMap_parses:
  "list_all (\<lambda>s. monthOf (s_date s) \<noteq> None) rows \<Longrightarrow> \<exists>m'. monthMap monthOf m rows = Inr m'"
  by (induction rows arbitrary: m) (auto simp: Let_def)

lemma monthMap_error:
  "monthMap monthOf m rows = Inl e \<Longrightarrow> e = InvalidTimeValue"
  by (induction rows arbitrary: m) (auto simp: Let_def split: option.splits)

lemma salesByMonth_parses:
  "list_all (\<lambda>s. monthOf (s_date s) \<noteq> None) rows \<Longrightarrow>
     \<exists>byMonth. salesByMonth monthOf localeCompare rows = Inr byMonth"
  using monthMap_parses [of monthOf rows "[]"] by (auto simp: salesByMonth_def)

lemma salesByMonth_error:
  "salesByMonth monthOf localeCompare rows = Inl e \<Longrightarrow> e = InvalidTimeValue"
  using monthMap_error [of monthOf "[]" rows e]
  by (auto simp: salesByMonth_def split: sum.splits)

lemma queries_return:
  "\<exists>cs. getClients (Some st) userId = Inr cs"
  "\<exists>logs. getCallLogs (Some st) userId = Inr logs"
  "\<exists>fs. getFollowUps (Some st) userId = Inr fs"
  by (simp_all add: getClients_def getCallLogs_def getFollowUps_def)

lemma getAnalyticsData_initialised:
  assumes "getClients (Some st) userId = Inr cs"
    and "getProspects (Some st) userId = Inr ps"
    and "getCallLogs (Some st) userId = Inr logs"
    and "getFollowUps (Some st) userId = Inr fs"
    and "rows = analyticsSales st userId startDate endDate"
  shows "getAnalyticsData js_add js_sub monthOf localeCompare (Some st) userId startDate endDate =
     (case salesByMonth monthOf localeCompare rows of
        Inl e \<Rightarrow> Inl e
      | Inr byMonth \<Rightarrow>
          Inr \<lparr>a_totalRevenue = totalRevenue rows,
               a_totalClients = length cs,
               a_totalProspects = length ps,
               a_totalCalls = length logs,
               a_totalFollowUps = length fs,
               a_completedFollowUps = length [f \<leftarrow> fs. f_isCompleted f],
               a_pendingFollowUps = length [f \<leftarrow> fs. \<not> f_isCompleted f],
               a_conversionRate = conversionRate ps,
               a_averageSaleAmount = averageSaleAmount rows,
               a_topProducts = topProducts js_add js_sub rows,
               a_salesByMonth = byMonth,
               a_prospectsByStatus = count_by (map p_status ps),
               a_callsByFeedback = count_by (map (\<lambda>row. l_feedback (fst row)) logs)\<rparr>)"
  unfolding assms(5) by (simp add: getAnalyticsData_def Let_def assms(1-4))

text \<open>
  C6. Let \<open>rows\<close> be the sales \<open>getAnalyticsData\<close> aggregates and \<open>ps\<close> the user's
  prospects. With no sales the function returns, with total and average 0. It returns
  whenever every sale date parses, and its only failure on an open connection is the
  \<open>RangeError\<close> of an unparseable sale date: there is no division error. Every
  result has \<open>averageSaleAmount\<close> 0 for no sales and \<open>totalRevenue / count\<close>
  otherwise, and \<open>conversionRate\<close> 0 for no prospects and
  \<open>wonProspects / totalProspects * 100\<close> otherwise.
\<close>

theorem getAnalyticsData_guards:
  assumes "rows = analyticsSales st userId startDate endDate"
    and "getProspects (Some st) userId = Inr ps"
  shows
    "(rows = [] \<longrightarrow>
        (\<exists>a. getAnalyticsData js_add js_sub monthOf localeCompare (Some st) userId startDate endDate = Inr a \<and>
             a_totalRevenue a = 0 \<and> a_averageSaleAmount a = 0)) \<and>
     (list_all (\<lambda>s. monthOf (s_date s) \<noteq> None) rows \<longrightarrow>
        (\<exists>a. getAnalyticsData js_add js_sub monthOf localeCompare (Some st) userId startDate endDate = Inr a)) \<and>
     (\<forall>a. getAnalyticsData js_add js_sub monthOf localeCompare (Some st) userId startDate endDate = Inr a \<longrightarrow>
        a_totalRevenue a = sum_list (map s_amount rows) \<and>
        a_averageSaleAmount a =
          (if rows = [] then 0 else a_totalRevenue a / real (length rows)) \<and>
        a_totalProspects a = length ps \<and>
        a_conversionRate a =
          (if ps = [] then 0
           else real (length [p \<leftarrow> ps. p_status p = Won]) / real (length ps) * 100)) \<and>
     (\<forall>e. getAnalyticsData js_add js_sub monthOf localeCompare (Some st) userId startDate endDate = Inl e \<longrightarrow>
        e = InvalidTimeValue)"
proof -
  let ?run = "getAnalyticsData js_add js_sub monthOf localeCompare (Some st) userId startDate endDate"
  obtain cs logs fs where q: "getClients (Some st) userId = Inr cs"
      "getCallLogs (Some st) userId = Inr logs" "getFollowUps (Some st) userId = Inr fs"
    using queries_return [of st userId] by blast
  note run = getAnalyticsData_initialised [OF q(1) assms(2) q(2) q(3) assms(1), of js_add js_sub monthOf localeCompare]
  have fields: "a_totalRevenue a = sum_list (map s_amount rows) \<and>
        a_averageSaleAmount a =
          (if rows = [] then 0 else a_totalRevenue a / real (length rows)) \<and>
        a_totalProspects a = length ps \<and>
        a_conversionRate a =
          (if ps = [] then 0
           else real (length [p \<leftarrow> ps. p_status p = Won]) / real (length ps) * 100)"
    if "?run = Inr a" for a
  proof -
    from that obtain byMonth where
      a: "a = \<lparr>a_totalRevenue = totalRevenue rows,
               a_totalClients = length cs,
               a_totalProspects = length ps,
               a_totalCalls = length logs,
               a_totalFollowUps = length fs,
               a_completedFollowUps = length [f \<leftarrow> fs. f_isCompleted f],
               a_pendingFollowUps = length [f \<leftarrow> fs. \<not> f_isCompleted f],
               a_conversionRate = conversionRate ps,
               a_averageSaleAmount = averageSaleAmount rows,
               a_topProducts = topProducts js_add js_sub rows,
               a_salesByMonth = byMonth,
               a_prospectsByStatus = count_by (map p_status ps),
               a_callsByFeedback = count_by (map (\<lambda>row. l_feedback (fst row)) logs)\<rparr>"
      unfolding run by (auto split: sum.splits)
    show ?thesis
      unfolding a by (simp add: totalRevenue_sum averageSaleAmount_def conversionRate_def Let_def)
  qed
  have returns: "\<exists>a. ?run = Inr a" if "list_all (\<lambda>s. monthOf (s_date s) \<noteq> None) rows"
    using salesByMonth_parses [OF that, of localeCompare]
    unfolding run by auto
  have empty: "\<exists>a. ?run = Inr a \<and> a_totalRevenue a = 0 \<and> a_averageSaleAmount a = 0" if "rows = []"
  proof -
    from that returns obtain a where a: "?run = Inr a" by auto
    with fields [OF a] that show ?thesis by auto
  qed
  have errs: "e = InvalidTimeValue" if "?run = Inl e" for e
    using that salesByMonth_error [of monthOf localeCompare rows e]
    unfolding run by (auto split: sum.splits)
  from fields returns empty errs show ?thesis by blast
qed

text \<open>C6, witness: user 1 of the sample store has one sale of 100 and one prospect that is
  not won; user 2 has no sale and one prospect, won.\<close>

theorem getAnalyticsData_guards_witness:
  "analyticsSales example_store 1 None None = sales example_store \<and>
   getProspects (Some example_store) 1 = Inr [hd (prospects example_store)] \<and>
   map_sum id (\<lambda>a. (a_totalRevenue a, a_averageSaleAmount a, a_conversionRate a))
     (getAnalyticsData example_add example_sub example_monthOf example_localeCompare (Some example_store) 1 None None) =
     Inr (100, 100, 0) \<and>
   map_sum id (\<lambda>a. (a_totalRevenue a, a_averageSaleAmount a, a_conversionRate a))
     (getAnalyticsData example_add example_sub example_monthOf example_localeCompare (Some example_store) 2 None None) =
     Inr (0, 0, 100)"
proof -
  have r1: "sales example_store = analyticsSales example_store 1 None None"
    by (simp add: analyticsSales_def order_by_desc_def truthy_def example_store_def)
  have p1: "getProspects (Some example_store) 1 = Inr [hd (prospects example_store)]"
    by (simp add: getProspects_def order_by_asc_def example_store_def)
  have r2: "[] = analyticsSales example_store 2 None None"
    by (simp add: analyticsSales_def order_by_desc_def truthy_def example_store_def)
  have p2: "getProspects (Some example_store) 2 = Inr [hd (tl (prospects example_store))]"
    by (simp add: getProspects_def order_by_asc_def example_store_def)
  have parse: "list_all (\<lambda>s. example_monthOf (s_date s) \<noteq> None) (sales example_store)"
    by (simp add: example_store_def example_monthOf_def)
  from getAnalyticsData_guards [OF r1 p1, of example_add example_sub example_monthOf example_localeCompare] parse
  have u1: "map_sum id (\<lambda>a. (a_totalRevenue a, a_averageSaleAmount a, a_conversionRate a))
     (getAnalyticsData example_add example_sub example_monthOf example_localeCompare (Some example_store) 1 None None) =
     Inr (100, 100, 0)"
    by (auto simp: example_store_def)
  from getAnalyticsData_guards [OF r2 p2, of example_add example_sub example_monthOf example_localeCompare]
  have u2: "map_sum id (\<lambda>a. (a_totalRevenue a, a_averageSaleAmount a, a_conversionRate a))
     (getAnalyticsData example_add example_sub example_monthOf example_localeCompare (Some example_store) 2 None None) =
     Inr (0, 0, 100)"
    by (auto simp: example_store_def)
  from r1 p1 u1 u2 show ?thesis by simp
qed

subsection \<open>Analytics: what a run returns\<close>

lemma getAnalyticsData_returns:
  assumes "list_all (\<lambda>s. monthOf (s_date s) \<noteq> None) (analyticsSales st userId startDate endDate)"
  shows "\<exists>a. getAnalyticsData js_add js_sub monthOf localeCompare (Some st) userId startDate endDate = Inr a"
proof -
  obtain cs logs fs where q: "getClients (Some st) userId = Inr cs"
      "getCallLogs (Some st) userId = Inr logs" "getFollowUps (Some st) userId = Inr fs"
    using queries_return [of st userId] by blast
  obtain ps where p: "getProspects (Some st) userId = Inr ps"
    by (simp add: getProspects_def)
  show ?thesis
    using salesByMonth_parses [OF assms, of localeCompare]
    unfolding getAnalyticsData_initialised [OF q(1) p q(2) q(3) refl, of js_add js_sub monthOf localeCompare]
    by auto
qed

lemma getAnalyticsData_sales_fields:
  assumes "getAnalyticsData js_add js_sub monthOf localeCompare (Some st) userId startDate endDate = Inr a"
    and "rows = analyticsSales st userId startDate endDate"
  shows "a_totalRevenue a = totalRevenue rows"
    and "a_averageSaleAmount a = averageSaleAmount rows"
    and "a_topProducts a = topProducts js_add js_sub rows"
    and "salesByMonth monthOf localeCompare rows = Inr (a_salesByMonth a)"
proof -
  obtain cs logs fs where q: "getClients (Some st) userId = Inr cs"
      "getCallLogs (Some st) userId = Inr logs" "getFollowUps (Some st) userId = Inr fs"
    using queries_return [of st userId] by blast
  obtain ps where p: "getProspects (Some st) userId = Inr ps"
    by (simp add: getProspects_def)
  note run = getAnalyticsData_initialised [OF q(1) p q(2) q(3) assms(2), of js_add js_sub monthOf localeCompare]
  from assms(1) obtain byMonth where
    m: "salesByMonth monthOf localeCompare rows = Inr byMonth" and
    a: "a = \<lparr>a_totalRevenue = totalRevenue rows,
               a_totalClients = length cs,
               a_totalProspects = length ps,
               a_totalCalls = length logs,
               a_totalFollowUps = length fs,
               a_completedFollowUps = length [f \<leftarrow> fs. f_isCompleted f],
               a_pendingFollowUps = length [f \<leftarrow> fs. \<not> f_isCompleted f],
               a_conversionRate = conversionRate ps,
               a_averageSaleAmount = averageSaleAmount rows,
               a_topProducts = topProducts js_add js_sub rows,
               a_salesByMonth = byMonth,
               a_prospectsByStatus = count_by (map p_status ps),
               a_callsByFeedback = count_by (map (\<lambda>row. l_feedback (fst row)) logs)\<rparr>"
    unfolding run by (auto split: sum.splits)
  show "a_totalRevenue a = totalRevenue rows" by (simp add: a)
  show "a_averageSaleAmount a = averageSaleAmount rows" by (simp add: a)
  show "a_topProducts a = topProducts js_add js_sub rows" by (simp add: a)
  show "salesByMonth monthOf localeCompare rows = Inr (a_salesByMonth a)" by (simp add: a m)
qed

subsection \<open>Analytics: the date bound\<close>

lemma analyticsSales_one_bound:
  "analyticsSales st userId (Some startDate) None = analyticsSales st userId None None"
  "analyticsSales st userId None (Some endDate) = analyticsSales st userId None None"
  by (simp_all add: analyticsSales_def truthy_def)

text \<open>
  C10. With only one of \<open>startDate\<close> and \<open>endDate\<close> supplied,
  \<open>getAnalyticsData\<close> returns what it returns with neither. The rows of the
  unbounded sales query are all the sales of the user's clients; the call returns
  whenever their dates parse, and what it returns is computed over these rows: the
  total revenue, the average, the product ranking and the monthly series are those of
  these rows.
\<close>

theorem getAnalyticsData_one_date:
  "getAnalyticsData js_add js_sub monthOf localeCompare db userId (Some startDate) None =
     getAnalyticsData js_add js_sub monthOf localeCompare db userId None None \<and>
   getAnalyticsData js_add js_sub monthOf localeCompare db userId None (Some endDate) =
     getAnalyticsData js_add js_sub monthOf localeCompare db userId None None \<and>
   analyticsSales st userId None None =
     order_by_desc s_date
       [s. s \<leftarrow> sales st, c \<leftarrow> clients st, s_clientId s = c_id c \<and> c_userId c = userId] \<and>
   set (analyticsSales st userId None None) =
     {s \<in> set (sales st). \<exists>c \<in> set (clients st). s_clientId s = c_id c \<and> c_userId c = userId} \<and>
   (list_all (\<lambda>s. monthOf (s_date s) \<noteq> None) (analyticsSales st userId None None) \<longrightarrow>
      (\<exists>a. getAnalyticsData js_add js_sub monthOf localeCompare (Some st) userId (Some startDate) None = Inr a) \<and>
      (\<exists>a. getAnalyticsData js_add js_sub monthOf localeCompare (Some st) userId None (Some endDate) = Inr a)) \<and>
   (\<forall>a. getAnalyticsData js_add js_sub monthOf localeCompare (Some st) userId (Some startDate) None = Inr a \<or>
        getAnalyticsData js_add js_sub monthOf localeCompare (Some st) userId None (Some endDate) = Inr a \<longrightarrow>
      a_totalRevenue a = totalRevenue (analyticsSales st userId None None) \<and>
      a_averageSaleAmount a = averageSaleAmount (analyticsSales st userId None None) \<and>
      a_topProducts a = topProducts js_add js_sub (analyticsSales st userId None None) \<and>
      salesByMonth monthOf localeCompare (analyticsSales st userId None None) = Inr (a_salesByMonth a))"
proof -
  let ?all = "analyticsSales st userId None None"
  have rows: "set ?all =
     {s \<in> set (sales st). \<exists>c \<in> set (clients st). s_clientId s = c_id c \<and> c_userId c = userId}"
    by (auto simp: analyticsSales_def set_order_by_desc truthy_def)
  have query: "?all = order_by_desc s_date
       [s. s \<leftarrow> sales st, c \<leftarrow> clients st, s_clientId s = c_id c \<and> c_userId c = userId]"
    by (simp add: analyticsSales_def truthy_def)
  have eq1: "getAnalyticsData js_add js_sub monthOf localeCompare db userId (Some startDate) None =
      getAnalyticsData js_add js_sub monthOf localeCompare db userId None None" for db
    by (cases db) (simp_all add: getAnalyticsData_def analyticsSales_one_bound)
  have eq2: "getAnalyticsData js_add js_sub monthOf localeCompare db userId None (Some endDate) =
      getAnalyticsData js_add js_sub monthOf localeCompare db userId None None" for db
    by (cases db) (simp_all add: getAnalyticsData_def analyticsSales_one_bound)
  have returns: "(\<exists>a. getAnalyticsData js_add js_sub monthOf localeCompare (Some st) userId (Some startDate) None = Inr a) \<and>
      (\<exists>a. getAnalyticsData js_add js_sub monthOf localeCompare (Some st) userId None (Some endDate) = Inr a)"
    if "list_all (\<lambda>s. monthOf (s_date s) \<noteq> None) ?all"
    using getAnalyticsData_returns [OF that, of js_add js_sub localeCompare]
    by (simp add: eq1 eq2)
  have fields: "a_totalRevenue a = totalRevenue ?all \<and>
      a_averageSaleAmount a = averageSaleAmount ?all \<and>
      a_topProducts a = topProducts js_add js_sub ?all \<and>
      salesByMonth monthOf localeCompare ?all = Inr (a_salesByMonth a)"
    if "getAnalyticsData js_add js_sub monthOf localeCompare (Some st) userId (Some startDate) None = Inr a \<or>
        getAnalyticsData js_add js_sub monthOf localeCompare (Some st) userId None (Some endDate) = Inr a" for a
  proof -
    from that have "getAnalyticsData js_add js_sub monthOf localeCompare (Some st) userId None None = Inr a"
      by (simp add: eq1 eq2)
    from getAnalyticsData_sales_fields [OF this refl] show ?thesis
      by simp
  qed
  from query rows eq1 eq2 returns fields show ?thesis by blast
qed

text \<open>C10, witness: user 1 of the sample store has one sale, of 2024-01-15. With a start
  date after it alone, or an end date before it alone, the sale is counted; with both
  bounds around a later period it is not selected.\<close>

theorem getAnalyticsData_one_date_witness:
  "map_sum id (\<lambda>a. (a_totalRevenue a, a_averageSaleAmount a, a_topProducts a))
     (getAnalyticsData example_add example_sub example_monthOf example_localeCompare
        (Some example_store) 1 (Some ''2024-02-01'') None) =
     Inr (100, 100, [\<lparr>tp_product = ''Widget'', tp_count = 1, tp_revenue = 100\<rparr>]) \<and>
   map_sum id (\<lambda>a. (a_totalRevenue a, a_averageSaleAmount a, a_topProducts a))
     (getAnalyticsData example_add example_sub example_monthOf example_localeCompare
        (Some example_store) 1 None (Some ''2023-12-31'')) =
     Inr (100, 100, [\<lparr>tp_product = ''Widget'', tp_count = 1, tp_revenue = 100\<rparr>]) \<and>
   analyticsSales example_store 1 None None = sales example_store \<and>
   analyticsSales example_store 1 (Some ''2024-02-01'') (Some ''2024-12-31'') = []"
proof -
  have all: "analyticsSales example_store 1 None None = sales example_store"
    by (simp add: analyticsSales_def order_by_desc_def truthy_def example_store_def)
  have both: "analyticsSales example_store 1 (Some ''2024-02-01'') (Some ''2024-12-31'') = []"
    by (simp add: analyticsSales_def order_by_desc_def truthy_def example_store_def)
  have parse: "list_all (\<lambda>s. example_monthOf (s_date s) \<noteq> None) (analyticsSales example_store 1 None None)"
    unfolding all by (simp add: example_store_def example_monthOf_def)
  have vals: "totalRevenue (sales example_store) = 100"
    "averageSaleAmount (sales example_store) = 100"
    "topProducts example_add example_sub (sales example_store) =
       [\<lparr>tp_product = ''Widget'', tp_count = 1, tp_revenue = 100\<rparr>]"
    by (simp_all add: example_store_def averageSaleAmount_def totalRevenue_def topProducts_def
          productMap_def js_map_get_def array_sort_def example_add_def)
  note inst = getAnalyticsData_one_date [of example_add example_sub example_monthOf example_localeCompare
      "Some example_store" 1 "''2024-02-01''" "''2023-12-31''" example_store]
  from inst parse obtain a1 a2 where
    r1: "getAnalyticsData example_add example_sub example_monthOf example_localeCompare
        (Some example_store) 1 (Some ''2024-02-01'') None = Inr a1" and
    r2: "getAnalyticsData example_add example_sub example_monthOf example_localeCompare
        (Some example_store) 1 None (Some ''2023-12-31'') = Inr a2"
    by blast
  from inst r1 have f1: "a_totalRevenue a1 = 100 \<and> a_averageSaleAmount a1 = 100 \<and>
      a_topProducts a1 = [\<lparr>tp_product = ''Widget'', tp_count = 1, tp_revenue = 100\<rparr>]"
    unfolding all vals by blast
  from inst r2 have f2: "a_totalRevenue a2 = 100 \<and> a_averageSaleAmount a2 = 100 \<and>
      a_topProducts a2 = [\<lparr>tp_product = ''Widget'', tp_count = 1, tp_revenue = 100\<rparr>]"
    unfolding all vals by blast
  from all both f1 f2 show ?thesis
    unfolding r1 r2 by simp
qed

subsection \<open>Analytics: the product ranking\<close>

lemma set_first_seen: "set (first_seen xs) = set xs"
  by (induction xs) auto

lemma distinct_first_seen: "distinct (first_seen xs)"
  by (induction xs) (auto simp: distinct_removeAll)

lemma first_seen_snoc:
  "first_seen (xs @ [x]) = (if x \<in> set xs then first_seen xs else first_seen xs @ [x])"
  by (induction xs) (auto simp: set_first_seen)

lemma js_map_get_tab:
  "js_map_get (map (\<lambda>p. (p, f p)) ps) k = (if k \<in> set ps then Some (f k) else None)"
  unfolding js_map_get_def by (induction ps) auto

lemma js_map_set_new:
  "k \<notin> set ps \<Longrightarrow>
     js_map_set (map (\<lambda>p. (p, f p)) ps) k v = map (\<lambda>p. (p, (f(k := v)) p)) (ps @ [k])"
  by (induction ps) auto

lemma js_map_set_old:
  "k \<in> set ps \<Longrightarrow> distinct ps \<Longrightarrow>
     js_map_set (map (\<lambda>p. (p, f p)) ps) k v = map (\<lambda>p. (p, (f(k := v)) p)) ps"
proof (induction ps)
  case Nil
  then show ?case by simp
next
  case (Cons a ps)
  show ?case
  proof (cases "a = k")
    case True
    with Cons.prems have "k \<notin> set ps" by simp
    then have "map (\<lambda>p. (p, (f(k := v)) p)) ps = map (\<lambda>p. (p, f p)) ps"
      by (intro map_cong) auto
    with True show ?thesis by simp
  next
    case False
    with Cons show ?thesis by simp
  qed
qed

lemma productMap_snoc:
  "productMap js_add (rows @ [sale]) =
     (let existing = (case js_map_get (productMap js_add rows) (s_productOrService sale) of
                        None \<Rightarrow> (0, 0) | Some e \<Rightarrow> e)
      in js_map_set (productMap js_add rows) (s_productOrService sale)
           (fst existing + 1, js_add (snd existing) (s_amount sale)))"
  by (simp add: productMap_def)

lemma productMap_groups:
  "productMap js_add rows =
     map (\<lambda>p. (p, length [s \<leftarrow> rows. s_productOrService s = p],
                 foldl js_add 0 (map s_amount [s \<leftarrow> rows. s_productOrService s = p])))
       (first_seen (map s_productOrService rows))"
proof (induction rows rule: rev_induct)
  case Nil
  show ?case by (simp add: productMap_def)
next
  case (snoc sale rows)
  define k where "k = s_productOrService sale"
  define ps where "ps = first_seen (map s_productOrService rows)"
  define f :: "sale list \<Rightarrow> string \<Rightarrow> nat \<times> real" where "f = (\<lambda>rs p. (length [s \<leftarrow> rs. s_productOrService s = p],
                     foldl js_add 0 (map s_amount [s \<leftarrow> rs. s_productOrService s = p])))"
  have IH: "productMap js_add rows = map (\<lambda>p. (p, f rows p)) ps"
    using snoc.IH by (simp add: f_def ps_def)
  have f_snoc: "f (rows @ [sale]) =
      (f rows)(k := (fst (f rows k) + 1, js_add (snd (f rows k)) (s_amount sale)))"
    by (auto simp: f_def k_def fun_eq_iff)
  have f_none: "f rows k = (0, 0)" if "k \<notin> set ps"
  proof -
    from that have "[s \<leftarrow> rows. s_productOrService s = k] = []"
      by (force simp: ps_def set_first_seen filter_empty_conv image_iff)
    then show ?thesis by (simp add: f_def)
  qed
  have keys: "first_seen (map s_productOrService (rows @ [sale])) =
      (if k \<in> set ps then ps else ps @ [k])"
    by (simp add: first_seen_snoc ps_def k_def set_first_seen)
  have step: "productMap js_add (rows @ [sale]) =
      map (\<lambda>p. (p, f (rows @ [sale]) p)) (if k \<in> set ps then ps else ps @ [k])"
  proof (cases "k \<in> set ps")
    case True
    then show ?thesis
      unfolding productMap_snoc IH f_snoc k_def [symmetric]
      by (simp add: js_map_get_tab js_map_set_old distinct_first_seen ps_def Let_def)
  next
    case False
    then show ?thesis
      unfolding productMap_snoc IH f_snoc k_def [symmetric]
      by (simp add: js_map_get_tab js_map_set_new f_none Let_def)
  qed
  show ?case
    unfolding step keys by (simp add: f_def)
qed

lemma insert_sorted_revenue:
  assumes "\<forall>x y. (0 < js_sub y x) = (x < y)"
  shows "insert_sorted (\<lambda>a b. js_sub (tp_revenue b) (tp_revenue a)) g gs =
     insort_key (\<lambda>g. - tp_revenue g) g gs"
  using assms by (induction gs) auto

lemma array_sort_revenue:
  assumes "\<forall>x y. (0 < js_sub y x) = (x < y)"
  shows "array_sort (\<lambda>a b. js_sub (tp_revenue b) (tp_revenue a)) gs =
     sort_key (\<lambda>g. - tp_revenue g) gs"
  unfolding array_sort_def sort_key_def
  by (induction gs) (simp_all add: insert_sorted_revenue [OF assms])

lemma topProducts_ranked:
  assumes "\<forall>x y. (0 < js_sub y x) = (x < y)"
  shows "topProducts js_add js_sub rows =
     take 5 (sort_key (\<lambda>g. - tp_revenue g) (product_groups js_add rows))"
  by (simp add: topProducts_def array_sort_revenue [OF assms] productMap_groups
      product_groups_def comp_def)

text \<open>
  C7. Let \<open>rows\<close> be the sales \<open>getAnalyticsData\<close> aggregates, and let the
  subtraction of doubles have the sign of the comparison, as it has on finite doubles.
  The call returns whenever the sale dates parse, and the \<open>topProducts\<close> field of
  every result is the stated ranking: the groups carry the products in the order of
  their first sale in \<open>rows\<close>, with count and revenue added up by the addition of
  doubles; the field is the first five entries of a list \<open>ranked\<close> that is in
  descending order of revenue and in which, for every revenue value, the groups of that
  revenue stand in the same order as among the groups (so every group occurs once, and
  ties keep the first-encounter order).
\<close>

theorem getAnalyticsData_topProducts:
  assumes "\<forall>x y. (0 < js_sub y x) = (x < y)"
    and "rows = analyticsSales st userId startDate endDate"
  shows "map tp_product (product_groups js_add rows) = first_seen (map s_productOrService rows) \<and>
   (list_all (\<lambda>s. monthOf (s_date s) \<noteq> None) rows \<longrightarrow>
      (\<exists>a. getAnalyticsData js_add js_sub monthOf localeCompare (Some st) userId startDate endDate = Inr a)) \<and>
   (\<forall>a. getAnalyticsData js_add js_sub monthOf localeCompare (Some st) userId startDate endDate = Inr a \<longrightarrow>
      a_topProducts a = topProducts_spec js_add rows \<and>
      (\<exists>ranked.
         a_topProducts a = take 5 ranked \<and>
         sorted_wrt (\<lambda>g h. tp_revenue g \<ge> tp_revenue h) ranked \<and>
         (\<forall>r. [g \<leftarrow> ranked. tp_revenue g = r] = [g \<leftarrow> product_groups js_add rows. tp_revenue g = r])) \<and>
      sorted_wrt (\<lambda>g h. tp_revenue g \<ge> tp_revenue h) (a_topProducts a) \<and>
      length (a_topProducts a) \<le> 5)"
proof -
  let ?key = "\<lambda>g. - tp_revenue g"
  let ?ranked = "sort_key ?key (product_groups js_add rows)"
  let ?run = "getAnalyticsData js_add js_sub monthOf localeCompare (Some st) userId startDate endDate"
  have names: "map tp_product (product_groups js_add rows) = first_seen (map s_productOrService rows)"
    by (simp add: product_groups_def comp_def)
  have returns: "\<exists>a. ?run = Inr a" if "list_all (\<lambda>s. monthOf (s_date s) \<noteq> None) rows"
    using that getAnalyticsData_returns [of monthOf st userId startDate endDate js_add js_sub localeCompare]
    by (simp add: assms(2))
  have "sorted (map ?key ?ranked)"
    by (rule sorted_sort_key)
  then have desc: "sorted_wrt (\<lambda>g h. tp_revenue g \<ge> tp_revenue h) ?ranked"
    by (simp add: sorted_map)
  have stable: "[g \<leftarrow> ?ranked. tp_revenue g = r] = [g \<leftarrow> product_groups js_add rows. tp_revenue g = r]" for r
    using sort_key_stable [of ?key "- r" "product_groups js_add rows"] by simp
  have ranking: "a_topProducts a = topProducts_spec js_add rows \<and>
      (\<exists>ranked.
         a_topProducts a = take 5 ranked \<and>
         sorted_wrt (\<lambda>g h. tp_revenue g \<ge> tp_revenue h) ranked \<and>
         (\<forall>r. [g \<leftarrow> ranked. tp_revenue g = r] = [g \<leftarrow> product_groups js_add rows. tp_revenue g = r])) \<and>
      sorted_wrt (\<lambda>g h. tp_revenue g \<ge> tp_revenue h) (a_topProducts a) \<and>
      length (a_topProducts a) \<le> 5"
    if run: "?run = Inr a" for a
  proof -
    have field: "a_topProducts a = take 5 ?ranked"
      using getAnalyticsData_sales_fields(3) [OF run assms(2)]
      by (simp add: topProducts_ranked [OF assms(1)])
    have spec: "a_topProducts a = topProducts_spec js_add rows"
      by (simp add: field topProducts_spec_def)
    have top: "sorted_wrt (\<lambda>g h. tp_revenue g \<ge> tp_revenue h) (a_topProducts a)"
      unfolding field using desc by (rule sorted_wrt_take)
    have len: "length (a_topProducts a) \<le> 5"
      by (simp add: field)
    from field desc stable have "\<exists>ranked.
        a_topProducts a = take 5 ranked \<and>
        sorted_wrt (\<lambda>g h. tp_revenue g \<ge> tp_revenue h) ranked \<and>
        (\<forall>r. [g \<leftarrow> ranked. tp_revenue g = r] = [g \<leftarrow> product_groups js_add rows. tp_revenue g = r])"
      by blast
    with spec top len show ?thesis by blast
  qed
  from names returns ranking show ?thesis by blast
qed

text \<open>C7, witness: in the sample sales A is met before B; under the rounding addition
  both reach 30 and A stays ahead of B, and C leads with 50.\<close>

theorem getAnalyticsData_topProducts_witness:
  "(\<forall>x y. (0 < example_sub y x) = (x < y)) \<and>
   analyticsSales example_ranking_store 1 None None = example_sales \<and>
   map_sum id a_topProducts
     (getAnalyticsData example_add example_sub example_monthOf example_localeCompare
        (Some example_ranking_store) 1 None None) =
     Inr [\<lparr>tp_product = ''C'', tp_count = 1, tp_revenue = 50\<rparr>,
          \<lparr>tp_product = ''A'', tp_count = 1, tp_revenue = 30\<rparr>,
          \<lparr>tp_product = ''B'', tp_count = 2, tp_revenue = 30\<rparr>]"
proof -
  have sign: "\<forall>x y. (0 < example_sub y x) = (x < y)"
    by (simp add: example_sub_def)
  have rows: "example_sales = analyticsSales example_ranking_store 1 None None"
    by (simp add: analyticsSales_def order_by_desc_def truthy_def example_ranking_store_def
          example_store_def example_sales_def)
  have "list_all (\<lambda>s. example_monthOf (s_date s) \<noteq> None) example_sales"
    by (simp add: example_sales_def example_monthOf_def)
  with getAnalyticsData_topProducts [OF sign rows, of example_add example_monthOf example_localeCompare]
  obtain a where run: "getAnalyticsData example_add example_sub example_monthOf example_localeCompare
        (Some example_ranking_store) 1 None None = Inr a"
    by blast
  have "topProducts_spec example_add example_sales =
     [\<lparr>tp_product = ''C'', tp_count = 1, tp_revenue = 50\<rparr>,
      \<lparr>tp_product = ''A'', tp_count = 1, tp_revenue = 30\<rparr>,
      \<lparr>tp_product = ''B'', tp_count = 2, tp_revenue = 30\<rparr>]"
    by (simp add: topProducts_spec_def product_groups_def example_sales_def example_add_def)
  with getAnalyticsData_topProducts [OF sign rows, of example_add example_monthOf example_localeCompare] run
  have "a_topProducts a =
     [\<lparr>tp_product = ''C'', tp_count = 1, tp_revenue = 50\<rparr>,
      \<lparr>tp_product = ''A'', tp_count = 1, tp_revenue = 30\<rparr>,
      \<lparr>tp_product = ''B'', tp_count = 2, tp_revenue = 30\<rparr>]"
    by simp
  with sign rows show ?thesis
    unfolding run by simp
qed

end
